theory Spec2Isabelle
  imports Main "HOL-Library.AList"
begin

section \<open>Values, exceptions and dictionaries\<close>

text \<open>
  The Lambda works on JSON-like Python values. The model keeps the three kinds of scalar
  that the code's own paths produce and compare: \<open>None\<close>, integers and strings
  (floats, booleans and nested containers are outside the model). A Python \<open>str\<close> is a
  \<open>string\<close>; \<open>bytes\<close> are a \<open>string\<close> too, and the conversion between both
  (\<open>encode('utf-8')\<close>, \<open>decode('utf-8')\<close>) belongs to the environment below.
\<close>

datatype pyval = PNone | PInt int | PStr string

type_synonym bytes = string

text \<open>An exception is its type name (\<open>type(e).__name__\<close>) and its message (\<open>str(e)\<close>).\<close>

datatype exn = Exn (exn_type: string) (exn_msg: string)

text \<open>
  A Python \<open>dict\<close> is an association list in insertion order with distinct keys:
  \<open>d[k] = v\<close> is \<open>AList.update k v d\<close>, \<open>d.get(k)\<close> is \<open>map_of d k\<close>,
  \<open>k in d\<close> is \<open>k \<in> fst ` set d\<close> and \<open>d[k]\<close> raises \<open>KeyError\<close> on a missing key.
\<close>

type_synonym 'v dict = "(string \<times> 'v) list"

definition dict_item :: "'v dict \<Rightarrow> string \<Rightarrow> exn + 'v" where
  "dict_item d k =
     (case map_of d k of
        None \<Rightarrow> Inl (Exn ''KeyError'' ([CHR 0x27] @ k @ [CHR 0x27]))
      | Some v \<Rightarrow> Inr v)"

text \<open>Decimal rendering of integers, as \<open>str(n)\<close> and an f-string do.\<close>

definition digit_char :: "nat \<Rightarrow> char" where
  "digit_char d = char_of (48 + d)"

function str_nat :: "nat \<Rightarrow> string" where
  "str_nat n = (if n < 10 then [digit_char n] else str_nat (n div 10) @ [digit_char (n mod 10)])"
  by pat_completeness auto
termination
  by (relation "measure id") auto

definition str_int :: "int \<Rightarrow> string" where
  "str_int i = (if i < 0 then CHR ''-'' # str_nat (nat (- i)) else str_nat (nat i))"

text \<open>\<open>str(x)\<close>, which is also what \<open>f'{x}'\<close> splices in.\<close>

fun py_str :: "pyval \<Rightarrow> string" where
  "py_str PNone = ''None''"
| "py_str (PInt i) = str_int i"
| "py_str (PStr s) = s"

text \<open>Python truthiness of a scalar: \<open>None\<close>, \<open>0\<close> and \<open>''\<close> are falsy.\<close>

fun truthy :: "pyval \<Rightarrow> bool" where
  "truthy PNone = False"
| "truthy (PInt i) = (i \<noteq> 0)"
| "truthy (PStr s) = (s \<noteq> [])"

section \<open>Classifier (\<open>PIIClassifier\<close>)\<close>

text \<open>
  \<open>str.lower()\<close> and \<open>str.strip()\<close> on ASCII text: the capital letters A-Z are mapped
  to a-z, and the characters that Python's \<open>str.isspace\<close> accepts below 128 are
  stripped from both ends.
\<close>

definition lower_char :: "char \<Rightarrow> char" where
  "lower_char c =
     (if 65 \<le> (of_char c :: nat) \<and> (of_char c :: nat) \<le> 90
      then char_of ((of_char c :: nat) + 32) else c)"

definition lower :: "string \<Rightarrow> string" where
  "lower s = map lower_char s"

definition is_space :: "char \<Rightarrow> bool" where
  "is_space c = ((of_char c :: nat) \<in> {9, 10, 11, 12, 13, 28, 29, 30, 31, 32})"

definition strip :: "string \<Rightarrow> string" where
  "strip s = rev (dropWhile is_space (rev (dropWhile is_space s)))"

definition PII_LEVEL_MAPPING :: "(int \<times> string list) list" where
  "PII_LEVEL_MAPPING =
     [(1, [''email'', ''first_name'', ''last_name'', ''phone'', ''phone_number'',
           ''name'', ''username'', ''display_name'']),
      (2, [''address'', ''street_address'', ''city'', ''state'', ''zip_code'', ''postal_code'',
           ''date_of_birth'', ''dob'', ''birth_date'', ''ip_address'', ''location'',
           ''country'', ''region'', ''timezone'']),
      (3, [''ssn'', ''social_security_number'', ''bank_account'', ''account_number'',
           ''credit_card'', ''credit_card_number'', ''medical_record'', ''health_record'',
           ''passport_number'', ''driver_license'', ''tax_id'', ''national_id''])]"

text \<open>The loop over \<open>PII_LEVEL_MAPPING.items()\<close>: the first level whose list holds the name.\<close>

fun find_level :: "(int \<times> string list) list \<Rightarrow> string \<Rightarrow> int option" where
  "find_level [] field_lower = None"
| "find_level ((level, fields) # rest) field_lower =
     (if field_lower \<in> set fields then Some level else find_level rest field_lower)"

definition classify_pii_level :: "string \<Rightarrow> int" where
  "classify_pii_level field_name =
     (let field_lower = strip (lower field_name) in
      case find_level PII_LEVEL_MAPPING field_lower of
        Some level \<Rightarrow> level
      | None \<Rightarrow> 1)"

record requirements =
  req_level :: int
  req_field_name :: string
  requires_kms :: bool
  requires_app_encryption :: bool
  storage_suffix :: string

definition get_encryption_requirements :: "string \<Rightarrow> requirements" where
  "get_encryption_requirements field_name =
     (let level = classify_pii_level field_name in
      \<lparr> req_level = level,
        req_field_name = field_name,
        requires_kms = (level \<ge> 2),
        requires_app_encryption = (level = 3),
        storage_suffix = (if level > 1 then ''_encrypted'' else '''') \<rparr>)"

section \<open>The external collaborators\<close>

text \<open>
  The key-management service, the secret store, the Fernet cipher of the
  \<open>cryptography\<close> package and the codecs of the standard library are not code of this
  repository. They are the fields of an environment; every theorem below holds for all
  environments, or says which property of a collaborator it needs.

  \<^item> \<open>kms_encrypt alias plaintext\<close> is \<open>kms.encrypt(KeyId, Plaintext)['CiphertextBlob']\<close>,
    \<open>kms_decrypt blob\<close> is \<open>kms.decrypt(CiphertextBlob)['Plaintext']\<close>;
  \<^item> \<open>secret_app_keys\<close> is what \<open>get_app_keys\<close> returns (the \<open>app_encryption_keys\<close>
    object of the secret, memoised by \<open>lru_cache\<close>) or raises;
  \<^item> \<open>fernet_new key\<close> is the constructor \<open>Fernet(key.encode())\<close>, which rejects a
    malformed key; \<open>fernet_encrypt\<close> and \<open>fernet_decrypt\<close> are the methods of the
    cipher built from that key;
  \<^item> \<open>b64encode blob\<close> is \<open>base64.b64encode(blob).decode('utf-8')\<close> and
    \<open>b64decode\<close> is \<open>base64.b64decode\<close>.
\<close>

record env =
  kms_encrypt :: "string \<Rightarrow> bytes \<Rightarrow> exn + bytes"
  kms_decrypt :: "bytes \<Rightarrow> exn + bytes"
  secret_app_keys :: "exn + pyval dict"
  fernet_new :: "string \<Rightarrow> exn option"
  fernet_encrypt :: "string \<Rightarrow> bytes \<Rightarrow> bytes"
  fernet_decrypt :: "string \<Rightarrow> bytes \<Rightarrow> exn + bytes"
  b64encode :: "bytes \<Rightarrow> string"
  b64decode :: "string \<Rightarrow> exn + bytes"
  utf8_encode :: "string \<Rightarrow> exn + bytes"
  utf8_decode :: "bytes \<Rightarrow> exn + string"

text \<open>
  A computation of the encryption handler returns a value or raises, and leaves the
  list of calls it made to the collaborators, in order.
\<close>

datatype call =
    GetAppKeys
  | FernetEncrypt string bytes
  | FernetDecrypt string bytes
  | KmsEncrypt string bytes
  | KmsDecrypt bytes

type_synonym 'a io = "call list \<times> (exn + 'a)"

definition io_return :: "'a \<Rightarrow> 'a io" where
  "io_return x = ([], Inr x)"

definition io_lift :: "exn + 'a \<Rightarrow> 'a io" where
  "io_lift r = ([], r)"

definition io_bind :: "'a io \<Rightarrow> ('a \<Rightarrow> 'b io) \<Rightarrow> 'b io" where
  "io_bind m f =
     (case m of
        (cs, Inl e) \<Rightarrow> (cs, Inl e)
      | (cs, Inr x) \<Rightarrow> (case f x of (cs', r) \<Rightarrow> (cs @ cs', r)))"

definition call_kms_encrypt :: "env \<Rightarrow> string \<Rightarrow> bytes \<Rightarrow> bytes io" where
  "call_kms_encrypt e alias plaintext = ([KmsEncrypt alias plaintext], kms_encrypt e alias plaintext)"

definition call_kms_decrypt :: "env \<Rightarrow> bytes \<Rightarrow> bytes io" where
  "call_kms_decrypt e blob = ([KmsDecrypt blob], kms_decrypt e blob)"

definition call_fernet_encrypt :: "env \<Rightarrow> string \<Rightarrow> bytes \<Rightarrow> bytes io" where
  "call_fernet_encrypt e key plaintext = ([FernetEncrypt key plaintext], Inr (fernet_encrypt e key plaintext))"

definition call_fernet_decrypt :: "env \<Rightarrow> string \<Rightarrow> bytes \<Rightarrow> bytes io" where
  "call_fernet_decrypt e key token = ([FernetDecrypt key token], fernet_decrypt e key token)"

section \<open>Encryption handler (\<open>pii_encryption_lambda.lambda_function.EncryptionHandler\<close>)\<close>

definition level2_kms_alias :: string where
  "level2_kms_alias = ''alias/pii-level2''"

definition level3_kms_alias :: string where
  "level3_kms_alias = ''alias/pii-level3''"

definition get_app_keys :: "env \<Rightarrow> pyval dict io" where
  "get_app_keys e = ([GetAppKeys], secret_app_keys e)"

text \<open>
  \<open>Fernet(key.encode())\<close>: the key must be a \<open>str\<close> (anything else has no
  \<open>encode\<close>), and the constructor must accept it. The cipher is represented by its key.
\<close>

definition make_cipher :: "env \<Rightarrow> pyval \<Rightarrow> exn + string" where
  "make_cipher e key =
     (case key of
        PStr k \<Rightarrow> (case fernet_new e k of Some err \<Rightarrow> Inl err | None \<Rightarrow> Inr k)
      | PInt i \<Rightarrow> Inl (Exn ''AttributeError'' [])
      | PNone \<Rightarrow> Inl (Exn ''AttributeError'' []))"

definition get_current_app_cipher :: "env \<Rightarrow> string io" where
  "get_current_app_cipher e =
     io_bind (get_app_keys e) (\<lambda>keys.
     io_bind (io_lift (dict_item keys ''current_version'')) (\<lambda>current_version.
     io_bind (io_lift (dict_item keys (''level3_app_key_v'' @ py_str current_version))) (\<lambda>key.
     io_lift (make_cipher e key))))"

definition get_app_cipher_for_version :: "env \<Rightarrow> pyval \<Rightarrow> string io" where
  "get_app_cipher_for_version e version =
     io_bind (get_app_keys e) (\<lambda>keys.
     io_bind (io_lift (dict_item keys (''level3_app_key_v'' @ py_str version))) (\<lambda>key.
     io_lift (make_cipher e key)))"

text \<open>
  The dictionary \<open>encrypt_field\<close> returns. A key that a branch leaves out is \<open>None\<close>
  in the optional fields \<open>res_method\<close>, \<open>res_app_key_version\<close> and \<open>res_kms_key\<close>;
  \<open>res_value = None\<close> is the Python value \<open>None\<close>.
\<close>

record enc_result =
  res_value :: "string option"
  res_encrypted :: bool
  res_level :: int
  res_field_name :: string
  res_method :: "string option"
  res_app_key_version :: "pyval option"
  res_kms_key :: "string option"

text \<open>
  \<open>encrypt_field\<close>. The argument is \<open>None\<close> for Python's \<open>None\<close>. The result is
  \<open>None\<close> where the Python function falls off its \<open>if/elif\<close> chain (a level other
  than 1, 2 or 3). The \<open>try ... except: log; raise\<close> around the chain re-raises what it
  caught, so it is not visible in the result.
\<close>

definition encrypt_field :: "env \<Rightarrow> string \<Rightarrow> string option \<Rightarrow> enc_result option io" where
  "encrypt_field e field_name val =
     (if val = None \<or> val = Some [] then
        io_return (Some \<lparr> res_value = None, res_encrypted = False, res_level = 1,
          res_field_name = field_name, res_method = None, res_app_key_version = None,
          res_kms_key = None \<rparr>)
      else
        let v = the val;
            requirements = get_encryption_requirements field_name;
            level = req_level requirements
        in
        if level = 1 then
          io_return (Some \<lparr> res_value = Some v, res_encrypted = False, res_level = 1,
            res_field_name = field_name, res_method = Some ''rds_only'',
            res_app_key_version = None, res_kms_key = None \<rparr>)
        else if level = 2 then
          io_bind (io_lift (utf8_encode e v)) (\<lambda>plaintext.
          io_bind (call_kms_encrypt e level2_kms_alias plaintext) (\<lambda>blob.
          io_return (Some \<lparr> res_value = Some (b64encode e blob), res_encrypted = True,
            res_level = 2, res_field_name = field_name, res_method = Some ''kms_only'',
            res_app_key_version = None, res_kms_key = Some level2_kms_alias \<rparr>)))
        else if level = 3 then
          io_bind (get_current_app_cipher e) (\<lambda>cipher.
          io_bind (io_lift (utf8_encode e v)) (\<lambda>plaintext.
          io_bind (call_fernet_encrypt e cipher plaintext) (\<lambda>app_encrypted.
          io_bind (call_kms_encrypt e level3_kms_alias app_encrypted) (\<lambda>blob.
          io_bind (get_app_keys e) (\<lambda>keys.
          io_bind (io_lift (dict_item keys ''current_version'')) (\<lambda>current_version.
          io_return (Some \<lparr> res_value = Some (b64encode e blob), res_encrypted = True,
            res_level = 3, res_field_name = field_name,
            res_method = Some ''double_encryption'',
            res_app_key_version = Some current_version,
            res_kms_key = Some level3_kms_alias \<rparr>)))))))
        else io_return None)"

text \<open>
  \<open>decrypt_field\<close>. \<open>metadata\<close> is \<open>None\<close> for the default argument. The level is a
  Python value, since the metadata's \<open>level\<close> entry overrides the classification;
  a level that is none of 1, 2, 3 falls off the chain and the function returns \<open>None\<close>.
\<close>

definition metadata_level :: "pyval dict option \<Rightarrow> pyval \<Rightarrow> pyval" where
  "metadata_level metadata level =
     (case metadata of
        None \<Rightarrow> level
      | Some md \<Rightarrow>
          if md \<noteq> [] then (case map_of md ''level'' of None \<Rightarrow> level | Some l \<Rightarrow> l)
          else level)"

definition metadata_app_key_version :: "pyval dict option \<Rightarrow> pyval" where
  "metadata_app_key_version metadata =
     (case metadata of
        None \<Rightarrow> PInt 1
      | Some md \<Rightarrow>
          if md \<noteq> [] then (case map_of md ''app_key_version'' of None \<Rightarrow> PInt 1 | Some v \<Rightarrow> v)
          else PInt 1)"

definition decrypt_field :: "env \<Rightarrow> string \<Rightarrow> string option \<Rightarrow> pyval dict option \<Rightarrow> string option io" where
  "decrypt_field e field_name encrypted_value metadata =
     (if encrypted_value = None \<or> encrypted_value = Some [] then io_return encrypted_value
      else
        let c = the encrypted_value;
            requirements = get_encryption_requirements field_name;
            level = metadata_level metadata (PInt (req_level requirements))
        in
        if level = PInt 1 then io_return (Some c)
        else if level = PInt 2 then
          io_bind (io_lift (b64decode e c)) (\<lambda>ciphertext.
          io_bind (call_kms_decrypt e ciphertext) (\<lambda>plaintext.
          io_bind (io_lift (utf8_decode e plaintext)) (\<lambda>s.
          io_return (Some s))))
        else if level = PInt 3 then
          io_bind (io_lift (b64decode e c)) (\<lambda>ciphertext.
          io_bind (call_kms_decrypt e ciphertext) (\<lambda>plaintext.
          io_bind (get_app_cipher_for_version e (metadata_app_key_version metadata)) (\<lambda>cipher.
          io_bind (call_fernet_decrypt e cipher plaintext) (\<lambda>decrypted.
          io_bind (io_lift (utf8_decode e decrypted)) (\<lambda>s.
          io_return (Some s))))))
        else io_return None)"

section \<open>The database and its connections\<close>

text \<open>
  The tables the Lambda writes. A user row holds the columns its \<open>INSERT\<close> named
  (the others are \<open>NULL\<close>); text columns hold a string or \<open>NULL\<close> (\<open>None\<close>).
\<close>

record user_row =
  u_id :: string
  u_columns :: "string option dict"

record metadata_row =
  md_user_id :: string
  md_field_name :: string
  md_pii_level :: pyval
  md_app_key_version :: pyval
  md_kms_key_alias :: pyval
  md_encryption_algorithm :: pyval

record audit_row =
  au_user_id :: pyval
  au_field_name :: string
  au_pii_level :: int
  au_operation :: string
  au_accessed_by :: string
  au_ip_address :: "string option"
  au_success :: bool
  au_error_message :: "string option"

record database =
  users :: "user_row list"
  encryption_metadata :: "metadata_row list"
  encryption_audit :: "audit_row list"

datatype statement =
    InsertUser "string list" "string option list"
  | InsertMetadata metadata_row
  | InsertAudit audit_row
  | SelectUser pyval
  | SelectMetadata pyval

text \<open>
  The database server is not code of this repository either. During one call of a
  function that opens a connection it may refuse the connection, reject a statement
  (seeing the transaction's view of the tables) or fail the commit; it chooses the id
  of a new user, and it knows the columns of the \<open>users\<close> table (what \<open>SELECT *\<close>
  returns, in order). Each such call is given the server's behaviour at that time.
\<close>

record db_server =
  connect_fault :: "exn option"
  execute_fault :: "database \<Rightarrow> statement \<Rightarrow> exn option"
  commit_fault :: "exn option"
  new_user_id :: "database \<Rightarrow> string"
  users_columns :: "string list"

text \<open>
  A connection holds the committed tables, the view of its open transaction and the
  transaction operations done on it. \<open>commit\<close> makes the view durable,
  \<open>rollback\<close> and \<open>close\<close> discard what is not committed.
\<close>

datatype conn_event = Commit | Rollback | Close

record connection =
  committed :: database
  pending :: database
  events :: "conn_event list"

definition get_db_connection :: "db_server \<Rightarrow> database \<Rightarrow> exn + connection" where
  "get_db_connection srv db =
     (case connect_fault srv of
        Some err \<Rightarrow> Inl err
      | None \<Rightarrow> Inr \<lparr> committed = db, pending = db, events = [] \<rparr>)"

definition conn_commit :: "db_server \<Rightarrow> connection \<Rightarrow> (exn + unit) \<times> connection" where
  "conn_commit srv conn =
     (case commit_fault srv of
        Some err \<Rightarrow> (Inl err, conn)
      | None \<Rightarrow> (Inr (), conn\<lparr> committed := pending conn, events := events conn @ [Commit] \<rparr>))"

definition conn_rollback :: "connection \<Rightarrow> connection" where
  "conn_rollback conn = conn\<lparr> pending := committed conn, events := events conn @ [Rollback] \<rparr>"

definition conn_close :: "connection \<Rightarrow> connection" where
  "conn_close conn = conn\<lparr> pending := committed conn, events := events conn @ [Close] \<rparr>"

definition execute_insert_user ::
  "db_server \<Rightarrow> string list \<Rightarrow> string option list \<Rightarrow> connection \<Rightarrow> (exn + string) \<times> connection" where
  "execute_insert_user srv insert_fields insert_values conn =
     (case execute_fault srv (pending conn) (InsertUser insert_fields insert_values) of
        Some err \<Rightarrow> (Inl err, conn)
      | None \<Rightarrow>
          let user_id = new_user_id srv (pending conn);
              row = \<lparr> u_id = user_id, u_columns = zip insert_fields insert_values \<rparr>
          in (Inr user_id,
              conn\<lparr> pending := (pending conn)\<lparr> users := users (pending conn) @ [row] \<rparr> \<rparr>))"

definition execute_insert_metadata ::
  "db_server \<Rightarrow> metadata_row \<Rightarrow> connection \<Rightarrow> (exn + unit) \<times> connection" where
  "execute_insert_metadata srv row conn =
     (case execute_fault srv (pending conn) (InsertMetadata row) of
        Some err \<Rightarrow> (Inl err, conn)
      | None \<Rightarrow>
          (Inr (),
           conn\<lparr> pending := (pending conn)\<lparr> encryption_metadata :=
             encryption_metadata (pending conn) @ [row] \<rparr> \<rparr>))"

definition execute_insert_audit ::
  "db_server \<Rightarrow> audit_row \<Rightarrow> connection \<Rightarrow> (exn + unit) \<times> connection" where
  "execute_insert_audit srv row conn =
     (case execute_fault srv (pending conn) (InsertAudit row) of
        Some err \<Rightarrow> (Inl err, conn)
      | None \<Rightarrow>
          (Inr (),
           conn\<lparr> pending := (pending conn)\<lparr> encryption_audit :=
             encryption_audit (pending conn) @ [row] \<rparr> \<rparr>))"

section \<open>Database manager (\<open>pii_encryption_lambda.database_operations.DatabaseManager\<close>)\<close>

text \<open>
  The argument of \<open>store_encrypted_user\<close>: the dictionary with the entries
  \<open>fields\<close> and \<open>metadata\<close> that the create handler builds.
\<close>

record encrypted_data =
  ed_fields :: "string option dict"
  ed_metadata :: "pyval dict dict"

definition field_mapping :: "string dict" where
  "field_mapping =
     [(''email'', ''email''),
      (''first_name'', ''first_name''),
      (''last_name'', ''last_name''),
      (''phone'', ''phone''),
      (''address_encrypted'', ''address_encrypted''),
      (''dob_encrypted'', ''dob_encrypted''),
      (''date_of_birth_encrypted'', ''dob_encrypted''),
      (''ssn_encrypted'', ''ssn_encrypted''),
      (''bank_account_encrypted'', ''bank_account_encrypted''),
      (''credit_card_encrypted'', ''credit_card_encrypted'')]"

text \<open>
  The loop that fills \<open>insert_fields\<close> and \<open>insert_values\<close>: a field is kept when its
  name is a key of \<open>field_mapping\<close> and its value is not \<open>None\<close>.
\<close>

fun collect_insert :: "string option dict \<Rightarrow> string list \<times> string option list" where
  "collect_insert [] = ([], [])"
| "collect_insert ((field_name, v) # rest) =
     (case map_of field_mapping field_name of
        Some db_column \<Rightarrow>
          if v \<noteq> None then (db_column # fst (collect_insert rest), v # snd (collect_insert rest))
          else collect_insert rest
      | None \<Rightarrow> collect_insert rest)"

definition dict_get :: "pyval dict \<Rightarrow> string \<Rightarrow> pyval" where
  "dict_get d k = (case map_of d k of None \<Rightarrow> PNone | Some v \<Rightarrow> v)"

text \<open>
  \<open>_insert_metadata\<close>: the values of the \<open>INSERT INTO encryption_metadata\<close> for one
  entry \<open>(field_name, metadata)\<close> of the metadata dictionary, and its execution. The
  statement names no \<open>encryption_algorithm\<close>.
\<close>

definition metadata_row_of :: "string \<Rightarrow> string \<times> pyval dict \<Rightarrow> metadata_row" where
  "metadata_row_of user_id entry =
     \<lparr> md_user_id = user_id,
       md_field_name = fst entry,
       md_pii_level = dict_get (snd entry) ''level'',
       md_app_key_version = dict_get (snd entry) ''app_key_version'',
       md_kms_key_alias = dict_get (snd entry) ''kms_key'',
       md_encryption_algorithm = PNone \<rparr>"

definition insert_metadata ::
  "db_server \<Rightarrow> connection \<Rightarrow> string \<Rightarrow> string \<Rightarrow> pyval dict \<Rightarrow> (exn + unit) \<times> connection" where
  "insert_metadata srv conn user_id field_name metadata =
     execute_insert_metadata srv (metadata_row_of user_id (field_name, metadata)) conn"

text \<open>The loop over \<open>metadata.items()\<close>; the first failing insert raises.\<close>

fun insert_all_metadata ::
  "db_server \<Rightarrow> connection \<Rightarrow> string \<Rightarrow> pyval dict dict \<Rightarrow> (exn + unit) \<times> connection" where
  "insert_all_metadata srv conn user_id [] = (Inr (), conn)"
| "insert_all_metadata srv conn user_id ((original_field, field_metadata) # rest) =
     (case insert_metadata srv conn user_id original_field field_metadata of
        (Inl err, conn1) \<Rightarrow> (Inl err, conn1)
      | (Inr u, conn1) \<Rightarrow> insert_all_metadata srv conn1 user_id rest)"

text \<open>The body of the \<open>try\<close> block of \<open>store_encrypted_user\<close>, after the connection is open.\<close>

definition store_try :: "db_server \<Rightarrow> connection \<Rightarrow> encrypted_data \<Rightarrow> (exn + string) \<times> connection" where
  "store_try srv conn data =
     (let user_fields = ed_fields data;
          metadata = ed_metadata data;
          insert_fields = fst (collect_insert user_fields);
          insert_values = snd (collect_insert user_fields)
      in
      if insert_fields = [] then (Inl (Exn ''ValueError'' ''No valid fields to insert''), conn)
      else
        case execute_insert_user srv insert_fields insert_values conn of
          (Inl err, conn1) \<Rightarrow> (Inl err, conn1)
        | (Inr user_id, conn1) \<Rightarrow>
            (case insert_all_metadata srv conn1 user_id metadata of
               (Inl err, conn2) \<Rightarrow> (Inl err, conn2)
             | (Inr u, conn2) \<Rightarrow>
                 (case conn_commit srv conn2 of
                    (Inl err, conn3) \<Rightarrow> (Inl err, conn3)
                  | (Inr u, conn3) \<Rightarrow> (Inr user_id, conn3))))"

text \<open>
  \<open>store_encrypted_user\<close>: the result or the exception, the database afterwards and the
  transaction operations done on the connection. When the connection cannot be opened,
  \<open>conn\<close> is still \<open>None\<close> and neither \<open>rollback\<close> nor \<open>close\<close> runs.
\<close>

definition store_encrypted_user ::
  "db_server \<Rightarrow> database \<Rightarrow> encrypted_data \<Rightarrow> (exn + string) \<times> database \<times> conn_event list" where
  "store_encrypted_user srv db data =
     (case get_db_connection srv db of
        Inl err \<Rightarrow> (Inl err, db, [])
      | Inr conn \<Rightarrow>
          (case store_try srv conn data of
             (Inl err, conn1) \<Rightarrow>
               (let c = conn_close (conn_rollback conn1) in (Inl err, committed c, events c))
           | (Inr user_id, conn1) \<Rightarrow>
               (let c = conn_close conn1 in (Inr user_id, committed c, events c))))"

definition system_fields :: "string list" where
  "system_fields = [''id'', ''created_at'', ''updated_at'']"

text \<open>The metadata dictionary that \<open>retrieve_encrypted_user\<close> builds from the rows.\<close>

fun build_metadata :: "metadata_row list \<Rightarrow> pyval dict dict \<Rightarrow> pyval dict dict" where
  "build_metadata [] metadata = metadata"
| "build_metadata (row # rows) metadata =
     build_metadata rows
       (AList.update (md_field_name row)
          [(''level'', md_pii_level row),
           (''app_key_version'', md_app_key_version row),
           (''kms_key_alias'', md_kms_key_alias row)] metadata)"

text \<open>
  \<open>retrieve_encrypted_user\<close> reads and changes nothing. \<open>SELECT *\<close> yields every
  column of the table, \<open>None\<close> for a column the row's \<open>INSERT\<close> did not name; the
  system fields are then popped from the dictionary.
\<close>

definition retrieve_encrypted_user ::
  "db_server \<Rightarrow> database \<Rightarrow> pyval \<Rightarrow> exn + (string option dict \<times> pyval dict dict)" where
  "retrieve_encrypted_user srv db user_id =
     (case get_db_connection srv db of
        Inl err \<Rightarrow> Inl err
      | Inr conn \<Rightarrow>
          (case execute_fault srv (pending conn) (SelectUser user_id) of
             Some err \<Rightarrow> Inl err
           | None \<Rightarrow>
               (case find (\<lambda>u. PStr (u_id u) = user_id) (users (pending conn)) of
                  None \<Rightarrow> Inl (Exn ''ValueError'' (''User with ID '' @ py_str user_id @ '' not found''))
                | Some user_data \<Rightarrow>
                    (let user_dict =
                           map (\<lambda>col. (col, (case map_of (u_columns user_data) col of
                                                 None \<Rightarrow> None | Some v \<Rightarrow> v)))
                             (filter (\<lambda>col. col \<notin> set system_fields) (users_columns srv))
                     in
                     case execute_fault srv (pending conn) (SelectMetadata user_id) of
                       Some err \<Rightarrow> Inl err
                     | None \<Rightarrow>
                         (let metadata_rows =
                                filter (\<lambda>r. PStr (md_user_id r) = user_id)
                                  (encryption_metadata (pending conn))
                          in Inr (user_dict, build_metadata metadata_rows []))))))"

section \<open>Audit logger (\<open>EncryptionHandler.log_audit\<close>)\<close>

text \<open>
  \<open>log_audit\<close> opens its own connection, inserts one row and commits. Its
  \<open>except Exception\<close> clause logs and does not re-raise, so whatever the \<open>try\<close> block
  raises, the function returns normally; the first component is what reaches the caller.
  \<open>finally\<close> closes the connection when one was opened.
\<close>

definition log_audit ::
  "db_server \<Rightarrow> database \<Rightarrow> pyval \<Rightarrow> string \<Rightarrow> string \<Rightarrow> bool \<Rightarrow> string option \<Rightarrow> string option
     \<Rightarrow> (exn + unit) \<times> database" where
  "log_audit srv db user_id field_name operation success error ip_address =
     (case get_db_connection srv db of
        Inl err \<Rightarrow> (Inr (), db)
      | Inr conn \<Rightarrow>
          (case execute_insert_audit srv
                  \<lparr> au_user_id = user_id,
                    au_field_name = field_name,
                    au_pii_level = classify_pii_level field_name,
                    au_operation = operation,
                    au_accessed_by = ''lambda-encryption-service'',
                    au_ip_address = ip_address,
                    au_success = success,
                    au_error_message = error \<rparr> conn of
             (Inl err, conn1) \<Rightarrow> (Inr (), committed (conn_close conn1))
           | (Inr u, conn1) \<Rightarrow>
               (case conn_commit srv conn1 of
                  (Inl err, conn2) \<Rightarrow> (Inr (), committed (conn_close conn2))
                | (Inr u, conn2) \<Rightarrow> (Inr (), committed (conn_close conn2)))))"

section \<open>Operation handlers (\<open>pii_encryption_lambda.lambda_function\<close>)\<close>

text \<open>
  The event is the operation envelope; a field is \<open>None\<close> when the key is absent (or
  \<open>null\<close>). A response is the status code and the dictionary that \<open>json.dumps\<close>
  serialises into the body.
\<close>

record event =
  ev_operation :: "pyval option"
  ev_data :: "pyval dict option"
  ev_user_id :: "pyval option"
  ev_encrypted_data :: "string option dict option"
  ev_metadata :: "pyval dict dict option"
  ev_limit :: "pyval option"
  ev_offset :: "pyval option"

datatype jv =
    JNull | JBool bool | JInt int | JStr string | JArr "jv list" | JObj "(string \<times> jv) list"

record response =
  statusCode :: int
  body :: "(string \<times> jv) list"

fun jv_of_pyval :: "pyval \<Rightarrow> jv" where
  "jv_of_pyval PNone = JNull"
| "jv_of_pyval (PInt i) = JInt i"
| "jv_of_pyval (PStr s) = JStr s"

fun jv_of_text :: "string option \<Rightarrow> jv" where
  "jv_of_text None = JNull"
| "jv_of_text (Some s) = JStr s"

definition jv_of_fields :: "string option dict \<Rightarrow> jv" where
  "jv_of_fields d = JObj (map (\<lambda>(k, v). (k, jv_of_text v)) d)"

definition jv_of_metadata :: "pyval dict dict \<Rightarrow> jv" where
  "jv_of_metadata d = JObj (map (\<lambda>(k, m). (k, JObj (map (\<lambda>(k', v). (k', jv_of_pyval v)) m))) d)"

text \<open>
  Everything outside the handlers' code: the collaborators of the encryption handler,
  the database server during the handler's main database call, the database server
  during the audit write for a given field, and whether constructing
  \<open>EncryptionHandler()\<close> (the service clients) fails. The handlers of the operations
  \<open>health\<close>, \<open>list_users\<close>, \<open>delete_user\<close> and \<open>audit_trail\<close> only probe services
  or query the database; the dispatcher is modelled for arbitrary such handlers.
\<close>

record world =
  crypto :: env
  main_srv :: db_server
  audit_srv :: "string \<Rightarrow> db_server"
  handler_fault :: "exn option"
  handle_health_check :: "database \<Rightarrow> (exn + response) \<times> database"
  handle_list_users_operation :: "event \<Rightarrow> database \<Rightarrow> (exn + response) \<times> database"
  handle_delete_user_operation :: "event \<Rightarrow> database \<Rightarrow> (exn + response) \<times> database"
  handle_audit_trail_operation :: "event \<Rightarrow> database \<Rightarrow> (exn + response) \<times> database"

text \<open>
  The metadata entry that the encrypt and create handlers record for an encrypted field:
  \<open>result['method']\<close> raises when the key is missing, \<open>result.get(...)\<close> gives \<open>None\<close>.
\<close>

definition field_metadata_of :: "enc_result \<Rightarrow> exn + pyval dict" where
  "field_metadata_of result =
     (case res_method result of
        None \<Rightarrow> Inl (Exn ''KeyError'' ([CHR 0x27] @ ''method'' @ [CHR 0x27]))
      | Some m \<Rightarrow>
          Inr [(''level'', PInt (res_level result)),
               (''method'', PStr m),
               (''app_key_version'',
                  (case res_app_key_version result of None \<Rightarrow> PNone | Some v \<Rightarrow> v)),
               (''kms_key'', (case res_kms_key result of None \<Rightarrow> PNone | Some k \<Rightarrow> PStr k))])"

text \<open>
  The loop \<open>for field_name, value in data.items()\<close> of the encrypt and create handlers:
  a \<open>None\<close> value is skipped, a level-1 result is stored under the field's name, any
  other result under the name with the suffix \<open>_encrypted\<close>, together with its metadata.
  The first failing field raises.
\<close>

fun encrypt_all :: "env \<Rightarrow> pyval dict \<Rightarrow> encrypted_data \<Rightarrow> exn + encrypted_data" where
  "encrypt_all e [] acc = Inr acc"
| "encrypt_all e ((field_name, v) # rest) acc =
     (if v = PNone then encrypt_all e rest acc
      else
        case snd (encrypt_field e field_name (Some (py_str v))) of
          Inl err \<Rightarrow> Inl err
        | Inr None \<Rightarrow> Inl (Exn ''TypeError'' (''NoneType'' @ '' object is not subscriptable''))
        | Inr (Some result) \<Rightarrow>
            if res_level result = 1 then
              encrypt_all e rest
                (acc\<lparr> ed_fields := AList.update field_name (res_value result) (ed_fields acc) \<rparr>)
            else
              (case field_metadata_of result of
                 Inl err \<Rightarrow> Inl err
               | Inr field_metadata \<Rightarrow>
                   encrypt_all e rest
                     (acc\<lparr> ed_fields :=
                            AList.update (field_name @ ''_encrypted'') (res_value result) (ed_fields acc),
                          ed_metadata := AList.update field_name field_metadata (ed_metadata acc) \<rparr>)))"

definition handle_encrypt_operation :: "world \<Rightarrow> event \<Rightarrow> database \<Rightarrow> (exn + response) \<times> database" where
  "handle_encrypt_operation w event db =
     (let data = (case ev_data event of None \<Rightarrow> [] | Some d \<Rightarrow> d) in
      if data = [] then (Inl (Exn ''ValueError'' ''Missing 'data' in encrypt operation''), db)
      else
        case encrypt_all (crypto w) data \<lparr> ed_fields = [], ed_metadata = [] \<rparr> of
          Inl err \<Rightarrow> (Inl err, db)
        | Inr encrypted_result \<Rightarrow>
            (Inr \<lparr> statusCode = 200,
                   body = [(''encrypted_data'',
                              JObj [(''fields'', jv_of_fields (ed_fields encrypted_result)),
                                    (''metadata'', jv_of_metadata (ed_metadata encrypted_result))]),
                           (''success'', JBool True),
                           (''processed_fields'', JInt (int (length data)))] \<rparr>, db))"

text \<open>
  The loop \<open>for field_name in data.keys()\<close> of the create handler: every call of
  \<open>log_audit\<close> stands in its own \<open>try\<close>, whose \<open>except\<close> clause only logs a warning.
\<close>

fun audit_all :: "(string \<Rightarrow> db_server) \<Rightarrow> database \<Rightarrow> pyval \<Rightarrow> string list \<Rightarrow> database" where
  "audit_all asrv db user_id [] = db"
| "audit_all asrv db user_id (field_name # rest) =
     (case log_audit (asrv field_name) db user_id field_name ''encrypt'' True None None of
        (Inl err, db1) \<Rightarrow> audit_all asrv db1 user_id rest
      | (Inr u, db1) \<Rightarrow> audit_all asrv db1 user_id rest)"

definition handle_create_user_operation :: "world \<Rightarrow> event \<Rightarrow> database \<Rightarrow> (exn + response) \<times> database" where
  "handle_create_user_operation w event db =
     (let data = (case ev_data event of None \<Rightarrow> [] | Some d \<Rightarrow> d) in
      if data = [] then (Inl (Exn ''ValueError'' ''Missing 'data' in create_user operation''), db)
      else
        case encrypt_all (crypto w) data \<lparr> ed_fields = [], ed_metadata = [] \<rparr> of
          Inl err \<Rightarrow> (Inl err, db)
        | Inr encrypted_result \<Rightarrow>
            (case store_encrypted_user (main_srv w) db encrypted_result of
               (Inl err, db1, evs) \<Rightarrow> (Inl err, db1)
             | (Inr user_id, db1, evs) \<Rightarrow>
                 (let db2 = audit_all (audit_srv w) db1 (PStr user_id) (map fst data) in
                  (Inr \<lparr> statusCode = 200,
                         body = [(''user_id'', JStr user_id),
                                 (''success'', JBool True),
                                 (''processed_fields'', JInt (int (length data))),
                                 (''message'', JStr ''User created and encrypted successfully'')] \<rparr>,
                   db2))))"

text \<open>\<open>str.endswith\<close>, and \<open>str.replace(pat, '')\<close> for a non-empty \<open>pat\<close>: every
  occurrence is removed, scanning from the left; \<open>skip\<close> counts the characters of a
  match that are still to be dropped.\<close>

definition endswith :: "string \<Rightarrow> string \<Rightarrow> bool" where
  "endswith s suffix =
     (length suffix \<le> length s \<and> drop (length s - length suffix) s = suffix)"

fun remove_all :: "string \<Rightarrow> nat \<Rightarrow> string \<Rightarrow> string" where
  "remove_all pat skip [] = []"
| "remove_all pat (Suc k) (x # xs) = remove_all pat k xs"
| "remove_all pat 0 (x # xs) =
     (if take (length pat) (x # xs) = pat then remove_all pat (length pat - 1) xs
      else x # remove_all pat 0 xs)"

definition original_field_of :: "string \<Rightarrow> string" where
  "original_field_of field_name = remove_all ''_encrypted'' 0 field_name"

text \<open>
  The loop of the get handler over the columns of the user row. The \<open>except\<close> clause
  of the \<open>try\<close> around each field logs and re-raises: the first field whose decryption
  raises ends the loop with that exception. The audit rows written before stay written.
\<close>

fun decrypt_all ::
  "world \<Rightarrow> pyval \<Rightarrow> pyval dict dict \<Rightarrow> string option dict \<Rightarrow> database \<Rightarrow> string option dict
     \<Rightarrow> (exn + string option dict) \<times> database" where
  "decrypt_all w user_id metadata [] db acc = (Inr acc, db)"
| "decrypt_all w user_id metadata ((field_name, v) # rest) db acc =
     (if v = None then decrypt_all w user_id metadata rest db acc
      else if endswith field_name ''_encrypted'' then
        (let original_field = original_field_of field_name;
             field_metadata = (case map_of metadata original_field of None \<Rightarrow> [] | Some m \<Rightarrow> m)
         in
         case snd (decrypt_field (crypto w) original_field v (Some field_metadata)) of
           Inl err \<Rightarrow> (Inl err, db)
         | Inr decrypted_value \<Rightarrow>
             (case log_audit (audit_srv w original_field) db user_id original_field
                     ''decrypt'' True None None of
                (Inl err, db1) \<Rightarrow>
                  decrypt_all w user_id metadata rest db1
                    (AList.update original_field decrypted_value acc)
              | (Inr u, db1) \<Rightarrow>
                  decrypt_all w user_id metadata rest db1
                    (AList.update original_field decrypted_value acc)))
      else decrypt_all w user_id metadata rest db (AList.update field_name v acc))"

definition handle_get_user_operation :: "world \<Rightarrow> event \<Rightarrow> database \<Rightarrow> (exn + response) \<times> database" where
  "handle_get_user_operation w event db =
     (let user_id = (case ev_user_id event of None \<Rightarrow> PNone | Some u \<Rightarrow> u) in
      if \<not> truthy user_id then (Inl (Exn ''ValueError'' ''Missing 'user_id' in get_user operation''), db)
      else
        case retrieve_encrypted_user (main_srv w) db user_id of
          Inl err \<Rightarrow> (Inl err, db)
        | Inr (encrypted_data, metadata) \<Rightarrow>
            (case decrypt_all w user_id metadata encrypted_data db [] of
               (Inl err, db1) \<Rightarrow> (Inl err, db1)
             | (Inr decrypted_result, db1) \<Rightarrow>
                 (Inr \<lparr> statusCode = 200,
                        body = [(''user_id'', jv_of_pyval user_id),
                                (''data'', jv_of_fields decrypted_result),
                                (''success'', JBool True),
                                (''processed_fields'', JInt (int (length encrypted_data)))] \<rparr>,
                  db1)))"

text \<open>The loop of the decrypt handler: as in the get handler, without the audit rows.\<close>

fun decrypt_event_fields ::
  "env \<Rightarrow> pyval dict dict \<Rightarrow> string option dict \<Rightarrow> string option dict \<Rightarrow> exn + string option dict" where
  "decrypt_event_fields e metadata [] acc = Inr acc"
| "decrypt_event_fields e metadata ((field_name, v) # rest) acc =
     (if v = None then decrypt_event_fields e metadata rest acc
      else if endswith field_name ''_encrypted'' then
        (let original_field = original_field_of field_name;
             field_metadata = (case map_of metadata original_field of None \<Rightarrow> [] | Some m \<Rightarrow> m)
         in
         case snd (decrypt_field e original_field v (Some field_metadata)) of
           Inl err \<Rightarrow> Inl err
         | Inr decrypted_value \<Rightarrow>
             decrypt_event_fields e metadata rest (AList.update original_field decrypted_value acc))
      else decrypt_event_fields e metadata rest (AList.update field_name v acc))"

definition handle_decrypt_operation :: "world \<Rightarrow> event \<Rightarrow> database \<Rightarrow> (exn + response) \<times> database" where
  "handle_decrypt_operation w event db =
     (let encrypted_data = (case ev_encrypted_data event of None \<Rightarrow> [] | Some d \<Rightarrow> d);
          metadata = (case ev_metadata event of None \<Rightarrow> [] | Some m \<Rightarrow> m)
      in
      if encrypted_data = [] then
        (Inl (Exn ''ValueError'' ''Missing 'encrypted_data' in decrypt operation''), db)
      else
        case decrypt_event_fields (crypto w) metadata encrypted_data [] of
          Inl err \<Rightarrow> (Inl err, db)
        | Inr decrypted_result \<Rightarrow>
            (Inr \<lparr> statusCode = 200,
                   body = [(''decrypted_data'', jv_of_fields decrypted_result),
                           (''success'', JBool True),
                           (''processed_fields'', JInt (int (length encrypted_data)))] \<rparr>, db))"

section \<open>Dispatcher (\<open>lambda_handler\<close>)\<close>

text \<open>
  The body of the \<open>try\<close> block of \<open>lambda_handler\<close>: the handler objects are built, the
  operation tag is read and the \<open>if/elif\<close> chain routes it. A missing (falsy) tag and a
  tag that matches no branch both raise \<open>ValueError\<close>.
\<close>

definition dispatch :: "world \<Rightarrow> event \<Rightarrow> database \<Rightarrow> (exn + response) \<times> database" where
  "dispatch w event db =
     (case handler_fault w of
        Some err \<Rightarrow> (Inl err, db)
      | None \<Rightarrow>
          (let operation = (case ev_operation event of None \<Rightarrow> PNone | Some v \<Rightarrow> v) in
           if \<not> truthy operation then (Inl (Exn ''ValueError'' ''Missing 'operation' in event''), db)
           else if operation = PStr ''create_user'' then handle_create_user_operation w event db
           else if operation = PStr ''get_user'' then handle_get_user_operation w event db
           else if operation = PStr ''encrypt'' then handle_encrypt_operation w event db
           else if operation = PStr ''decrypt'' then handle_decrypt_operation w event db
           else if operation = PStr ''health'' then handle_health_check w db
           else if operation = PStr ''list_users'' then handle_list_users_operation w event db
           else if operation = PStr ''delete_user'' then handle_delete_user_operation w event db
           else if operation = PStr ''audit_trail'' then handle_audit_trail_operation w event db
           else (Inl (Exn ''ValueError'' (''Unknown operation: '' @ py_str operation)), db)))"

text \<open>
  \<open>lambda_handler\<close>: the \<open>except Exception\<close> clause turns whatever the \<open>try\<close> block
  raised into the envelope with status 500, the message, the type name and
  \<open>success = False\<close>.
\<close>

definition error_envelope :: "exn \<Rightarrow> response" where
  "error_envelope err =
     \<lparr> statusCode = 500,
       body = [(''error'', JStr (exn_msg err)),
               (''type'', JStr (exn_type err)),
               (''success'', JBool False)] \<rparr>"

definition lambda_handler :: "world \<Rightarrow> event \<Rightarrow> database \<Rightarrow> response \<times> database" where
  "lambda_handler w event db =
     (case dispatch w event db of
        (Inl err, db1) \<Rightarrow> (error_envelope err, db1)
      | (Inr resp, db1) \<Rightarrow> (resp, db1))"

section \<open>The generated handler (\<open>lambda_function_generated\<close>)\<close>

text \<open>
  The repository holds a second implementation of the Lambda, generated from the
  database schema and packaged by \<open>create_final_package.py\<close>. Its classes have the
  names of the package's classes; the definitions below carry the suffix
  \<open>_generated\<close> where a name would clash.
\<close>

definition PII_LEVEL_MAPPING_generated :: "(int \<times> string list) list" where
  "PII_LEVEL_MAPPING_generated =
     [(1, [''email'', ''first_name'', ''last_name'', ''phone'', ''phone_number'',
           ''name'', ''username'', ''display_name'']),
      (2, [''address'', ''street_address'', ''city'', ''state'', ''zip_code'', ''postal_code'',
           ''date_of_birth'', ''dob'', ''birth_date'', ''ip_address'', ''location'',
           ''country'', ''region'', ''timezone'']),
      (3, [''ssn'', ''social_security_number'', ''social_security'', ''tax_id'',
           ''bank_account'', ''account_number'', ''routing_number'',
           ''credit_card'', ''card_number'', ''cvv'', ''credit_card_number'',
           ''passport_number'', ''drivers_license'', ''national_id''])]"

definition classify_pii_level_generated :: "string \<Rightarrow> int" where
  "classify_pii_level_generated field_name =
     (let field_lower = strip (lower field_name) in
      case find_level PII_LEVEL_MAPPING_generated field_lower of
        Some level \<Rightarrow> level
      | None \<Rightarrow> 1)"

definition FIELD_MAPPING :: "string dict" where
  "FIELD_MAPPING =
     [(''email'', ''email''),
      (''first_name'', ''first_name''),
      (''last_name'', ''last_name''),
      (''phone'', ''phone''),
      (''address'', ''address_encrypted''),
      (''date_of_birth'', ''date_of_birth_encrypted''),
      (''ip_address'', ''ip_address_encrypted''),
      (''ssn'', ''ssn_encrypted''),
      (''bank_account'', ''bank_account_encrypted''),
      (''credit_card'', ''credit_card_encrypted'')]"

record enc_result_generated = enc_result +
  res_db_field :: string

definition db_field_of :: "string \<Rightarrow> string" where
  "db_field_of field_name =
     (case map_of FIELD_MAPPING field_name of None \<Rightarrow> field_name | Some c \<Rightarrow> c)"

text \<open>
  \<open>encrypt_field\<close> of the generated handler. Level 2 and level 3 differ in the key alias
  and the method name only: both call the envelope service on the encoded value. The
  module has no application keys and no local cipher.
\<close>

definition encrypt_field_generated ::
  "env \<Rightarrow> string \<Rightarrow> string option \<Rightarrow> enc_result_generated option io" where
  "encrypt_field_generated e field_name val =
     (if val = None \<or> val = Some [] then
        io_return (Some \<lparr> res_value = None, res_encrypted = False, res_level = 1,
          res_field_name = field_name, res_method = None, res_app_key_version = None,
          res_kms_key = None, res_db_field = db_field_of field_name \<rparr>)
      else
        let v = the val;
            level = classify_pii_level_generated field_name;
            db_field = db_field_of field_name
        in
        if level = 1 then
          io_return (Some \<lparr> res_value = Some v, res_encrypted = False, res_level = 1,
            res_field_name = field_name, res_method = Some ''rds_only'',
            res_app_key_version = None, res_kms_key = None, res_db_field = db_field \<rparr>)
        else if level = 2 then
          io_bind (io_lift (utf8_encode e v)) (\<lambda>plaintext.
          io_bind (call_kms_encrypt e level2_kms_alias plaintext) (\<lambda>blob.
          io_return (Some \<lparr> res_value = Some (b64encode e blob), res_encrypted = True,
            res_level = 2, res_field_name = field_name, res_method = Some ''kms_level2'',
            res_app_key_version = None, res_kms_key = Some level2_kms_alias,
            res_db_field = db_field \<rparr>)))
        else if level = 3 then
          io_bind (io_lift (utf8_encode e v)) (\<lambda>plaintext.
          io_bind (call_kms_encrypt e level3_kms_alias plaintext) (\<lambda>blob.
          io_return (Some \<lparr> res_value = Some (b64encode e blob), res_encrypted = True,
            res_level = 3, res_field_name = field_name, res_method = Some ''kms_level3'',
            res_app_key_version = None, res_kms_key = Some level3_kms_alias,
            res_db_field = db_field \<rparr>)))
        else io_return None)"

text \<open>\<open>decrypt_field\<close> of the generated handler; the level \<open>None\<close> is \<open>PNone\<close>.\<close>

definition decrypt_field_generated ::
  "env \<Rightarrow> string \<Rightarrow> string option \<Rightarrow> pyval \<Rightarrow> string option io" where
  "decrypt_field_generated e field_name encrypted_value level0 =
     (if encrypted_value = None \<or> encrypted_value = Some [] then io_return encrypted_value
      else
        let c = the encrypted_value;
            level = (if level0 = PNone then PInt (classify_pii_level_generated field_name) else level0)
        in
        if level = PInt 1 then io_return (Some c)
        else if level \<in> {PInt 2, PInt 3} then
          io_bind (io_lift (b64decode e c)) (\<lambda>ciphertext.
          io_bind (call_kms_decrypt e ciphertext) (\<lambda>plaintext.
          io_bind (io_lift (utf8_decode e plaintext)) (\<lambda>s.
          io_return (Some s))))
        else io_return None)"

subsection \<open>\<open>DatabaseOperations.create_user\<close>\<close>

definition users_table_columns :: "string list" where
  "users_table_columns =
     [''id'', ''email'', ''first_name'', ''last_name'', ''phone'', ''address_encrypted'',
      ''date_of_birth_encrypted'', ''ip_address_encrypted'', ''ssn_encrypted'',
      ''bank_account_encrypted'', ''credit_card_encrypted'', ''created_at'', ''updated_at'']"

text \<open>
  The first loop of \<open>create_user\<close>: every input field that is a key of
  \<open>FIELD_MAPPING\<close> is encrypted, its value stored under the column name, and one
  metadata record appended for it, whatever its level. Other fields are skipped.
\<close>

fun process_fields ::
  "env \<Rightarrow> pyval dict \<Rightarrow> string option dict \<times> metadata_row list
     \<Rightarrow> exn + (string option dict \<times> metadata_row list)" where
  "process_fields e [] acc = Inr acc"
| "process_fields e ((input_field, v) # rest) acc =
     (if input_field \<in> fst ` set FIELD_MAPPING then
        (case snd (encrypt_field_generated e input_field
                     (if v \<noteq> PNone then Some (py_str v) else None)) of
           Inl err \<Rightarrow> Inl err
         | Inr None \<Rightarrow> Inl (Exn ''TypeError'' (''NoneType'' @ '' object is not subscriptable''))
         | Inr (Some encryption_result) \<Rightarrow>
             process_fields e rest
               (AList.update (res_db_field encryption_result) (res_value encryption_result) (fst acc),
                snd acc @
                  [\<lparr> md_user_id = [],
                     md_field_name = input_field,
                     md_pii_level = PInt (res_level encryption_result),
                     md_app_key_version = PNone,
                     md_kms_key_alias =
                       (case res_kms_key encryption_result of None \<Rightarrow> PNone | Some k \<Rightarrow> PStr k),
                     md_encryption_algorithm =
                       (case res_method encryption_result of
                          None \<Rightarrow> PStr ''none'' | Some m \<Rightarrow> PStr m) \<rparr>]))
      else process_fields e rest acc)"

text \<open>The second loop: one \<open>INSERT INTO encryption_metadata\<close> per metadata record.\<close>

fun insert_metadata_records ::
  "db_server \<Rightarrow> connection \<Rightarrow> string \<Rightarrow> metadata_row list \<Rightarrow> (exn + unit) \<times> connection" where
  "insert_metadata_records srv conn user_id [] = (Inr (), conn)"
| "insert_metadata_records srv conn user_id (metadata # rest) =
     (case execute_insert_metadata srv (metadata\<lparr> md_user_id := user_id \<rparr>) conn of
        (Inl err, conn1) \<Rightarrow> (Inl err, conn1)
      | (Inr u, conn1) \<Rightarrow> insert_metadata_records srv conn1 user_id rest)"

record created_user =
  cu_user_id :: string
  cu_fields_processed :: "string list"

text \<open>
  The \<open>try\<close> block of \<open>create_user\<close> after the connection is open. The returned
  dictionary also carries the row's \<open>created_at\<close>, a time stamp of the server, which
  the model leaves out.
\<close>

definition create_user_try ::
  "env \<Rightarrow> db_server \<Rightarrow> connection \<Rightarrow> pyval dict \<Rightarrow> (exn + created_user) \<times> connection" where
  "create_user_try e srv conn user_data =
     (case process_fields e user_data ([], []) of
        Inl err \<Rightarrow> (Inl err, conn)
      | Inr (insert_data, metadata_records) \<Rightarrow>
          (let available_fields = filter (\<lambda>f. f \<in> set users_table_columns) (map fst insert_data) in
           if available_fields = [] then
             (Inl (Exn ''ValueError'' ''No valid fields for user creation''), conn)
           else
             (let filtered_data = filter (\<lambda>(k, v). k \<in> set available_fields) insert_data in
              case execute_insert_user srv (map fst filtered_data) (map snd filtered_data) conn of
                (Inl err, conn1) \<Rightarrow> (Inl err, conn1)
              | (Inr user_id, conn1) \<Rightarrow>
                  (case insert_metadata_records srv conn1 user_id metadata_records of
                     (Inl err, conn2) \<Rightarrow> (Inl err, conn2)
                   | (Inr u, conn2) \<Rightarrow>
                       (case conn_commit srv conn2 of
                          (Inl err, conn3) \<Rightarrow> (Inl err, conn3)
                        | (Inr u, conn3) \<Rightarrow>
                            (Inr \<lparr> cu_user_id = user_id,
                                   cu_fields_processed = map fst user_data \<rparr>, conn3))))))"

definition create_user ::
  "env \<Rightarrow> db_server \<Rightarrow> database \<Rightarrow> pyval dict \<Rightarrow> (exn + created_user) \<times> database \<times> conn_event list" where
  "create_user e srv db user_data =
     (case get_db_connection srv db of
        Inl err \<Rightarrow> (Inl err, db, [])
      | Inr conn \<Rightarrow>
          (case create_user_try e srv conn user_data of
             (Inl err, conn1) \<Rightarrow>
               (let c = conn_close (conn_rollback conn1) in (Inl err, committed c, events c))
           | (Inr r, conn1) \<Rightarrow>
               (let c = conn_close conn1 in (Inr r, committed c, events c))))"

subsection \<open>\<open>DatabaseOperations.get_user\<close>\<close>

definition reverse_mapping :: "string dict" where
  "reverse_mapping =
     [(''email'', ''email''),
      (''first_name'', ''first_name''),
      (''last_name'', ''last_name''),
      (''phone'', ''phone''),
      (''address_encrypted'', ''address''),
      (''date_of_birth_encrypted'', ''date_of_birth''),
      (''ip_address_encrypted'', ''ip_address''),
      (''ssn_encrypted'', ''ssn''),
      (''bank_account_encrypted'', ''bank_account''),
      (''credit_card_encrypted'', ''credit_card'')]"

text \<open>\<open>reverse_mapping.get(db_field, db_field)\<close>.\<close>

definition input_field_of :: "string \<Rightarrow> string" where
  "input_field_of db_field =
     (case map_of reverse_mapping db_field of None \<Rightarrow> db_field | Some f \<Rightarrow> f)"

text \<open>\<open>metadata_map\<close>: the level recorded for each field name, a later row winning.\<close>

fun build_metadata_map :: "metadata_row list \<Rightarrow> pyval dict \<Rightarrow> pyval dict" where
  "build_metadata_map [] m = m"
| "build_metadata_map (row # rows) m =
     build_metadata_map rows (AList.update (md_field_name row) (md_pii_level row) m)"

text \<open>\<open>level > 1\<close> on a database value: only integers compare with \<open>1\<close>.\<close>

fun level_gt_1 :: "pyval \<Rightarrow> exn + bool" where
  "level_gt_1 (PInt i) = Inr (i > 1)"
| "level_gt_1 PNone = Inl (Exn ''TypeError'' ''> not supported'')"
| "level_gt_1 (PStr s) = Inl (Exn ''TypeError'' ''> not supported'')"

definition DECRYPTION_FAILED :: string where
  "DECRYPTION_FAILED = ''[DECRYPTION_FAILED]''"

text \<open>
  The loop of \<open>get_user\<close> over the selected columns of the row (\<open>id\<close>, \<open>created_at\<close>
  and \<open>updated_at\<close> are skipped). The call of \<open>decrypt_field\<close> stands in a \<open>try\<close> of its
  own, whose \<open>except\<close> clause stores the sentinel and goes on.
\<close>

fun render_fields ::
  "env \<Rightarrow> pyval dict \<Rightarrow> string option dict \<Rightarrow> string option dict \<Rightarrow> exn + string option dict" where
  "render_fields e metadata_map [] result = Inr result"
| "render_fields e metadata_map ((db_field, v) # rest) result =
     (if db_field \<in> {''id'', ''created_at'', ''updated_at''} then
        render_fields e metadata_map rest result
      else
        let input_field = input_field_of db_field in
        if v \<noteq> None \<and> input_field \<in> fst ` set metadata_map then
          (case level_gt_1 (the (map_of metadata_map input_field)) of
             Inl err \<Rightarrow> Inl err
           | Inr True \<Rightarrow>
               (case snd (decrypt_field_generated e input_field v
                            (the (map_of metadata_map input_field))) of
                  Inl err \<Rightarrow>
                    render_fields e metadata_map rest
                      (AList.update input_field (Some DECRYPTION_FAILED) result)
                | Inr decrypted \<Rightarrow>
                    render_fields e metadata_map rest (AList.update input_field decrypted result))
           | Inr False \<Rightarrow>
               render_fields e metadata_map rest (AList.update input_field v result))
        else render_fields e metadata_map rest (AList.update input_field v result))"

text \<open>
  The partial-failure policy for one column, stated on its own for comparison with
  the loop: a value that is not \<open>None\<close>, whose field has a recorded integer level above
  1, is decrypted, and becomes the sentinel when the decryption raises; every other
  value is passed through.
\<close>

definition field_or_sentinel :: "env \<Rightarrow> pyval dict \<Rightarrow> string \<Rightarrow> string option \<Rightarrow> string option" where
  "field_or_sentinel e metadata_map db_field v =
     (case map_of metadata_map (input_field_of db_field) of
        Some (PInt level) \<Rightarrow>
          if v \<noteq> None \<and> level > 1 then
            (case snd (decrypt_field_generated e (input_field_of db_field) v (PInt level)) of
               Inl err \<Rightarrow> Some DECRYPTION_FAILED
             | Inr decrypted \<Rightarrow> decrypted)
          else v
      | _ \<Rightarrow> v)"

text \<open>
  \<open>get_user\<close>: the query selects every column of \<open>users_table_columns\<close> but
  \<open>updated_at\<close>; a column the row's \<open>INSERT\<close> did not name is \<open>NULL\<close>. The result
  is \<open>None\<close> when there is no such user. (\<open>created_at\<close> is left out of the result, as
  in \<open>create_user\<close>.)
\<close>

definition selected_columns :: "user_row \<Rightarrow> string option dict" where
  "selected_columns row =
     map (\<lambda>col. (col, (case map_of (u_columns row) col of None \<Rightarrow> None | Some v \<Rightarrow> v)))
       (filter (\<lambda>col. col \<notin> {''id'', ''created_at'', ''updated_at''}) users_table_columns)"

definition get_user ::
  "env \<Rightarrow> db_server \<Rightarrow> database \<Rightarrow> string \<Rightarrow> exn + string option dict option" where
  "get_user e srv db user_id =
     (case get_db_connection srv db of
        Inl err \<Rightarrow> Inl err
      | Inr conn \<Rightarrow>
          (case execute_fault srv (pending conn) (SelectUser (PStr user_id)) of
             Some err \<Rightarrow> Inl err
           | None \<Rightarrow>
               (case find (\<lambda>u. u_id u = user_id) (users (pending conn)) of
                  None \<Rightarrow> Inr None
                | Some user_data \<Rightarrow>
                    (case execute_fault srv (pending conn) (SelectMetadata (PStr user_id)) of
                       Some err \<Rightarrow> Inl err
                     | None \<Rightarrow>
                         (let metadata_rows =
                                filter (\<lambda>r. md_user_id r = user_id) (encryption_metadata (pending conn));
                              metadata_map = build_metadata_map metadata_rows []
                          in
                          case render_fields e metadata_map (selected_columns user_data)
                                 [(''user_id'', Some (u_id user_data))] of
                            Inl err \<Rightarrow> Inl err
                          | Inr result \<Rightarrow> Inr (Some result))))))"

subsection \<open>\<open>lambda_handler\<close> of the generated module\<close>

text \<open>
  What the generated dispatcher has around it: the collaborators of its encryption
  handler, the database server, whether constructing \<open>EncryptionHandler()\<close> fails, and
  the branches that only probe services or query the database (\<open>health\<close>,
  \<open>list_users\<close>, \<open>audit_trail\<close>), for which the dispatcher is modelled with arbitrary
  behaviour.
\<close>

record world_generated =
  crypto_generated :: env
  srv_generated :: db_server
  handler_fault_generated :: "exn option"
  health_branch :: "database \<Rightarrow> (exn + response) \<times> database"
  list_users_branch :: "event \<Rightarrow> database \<Rightarrow> (exn + response) \<times> database"
  audit_trail_branch :: "event \<Rightarrow> database \<Rightarrow> (exn + response) \<times> database"

text \<open>
  The body of the \<open>try\<close> block of the generated \<open>lambda_handler\<close>. A missing (falsy)
  tag raises \<open>ValueError\<close>; a tag that matches no branch does not raise: the last
  \<open>else\<close> returns an envelope with status 400 that lists the supported operations.
  \<open>get_user\<close> answers 404 when there is no such user. (The \<open>created_at\<close> entry of the
  create result is left out, as in \<open>create_user\<close>.)
\<close>

definition dispatch_generated ::
  "world_generated \<Rightarrow> event \<Rightarrow> database \<Rightarrow> (exn + response) \<times> database" where
  "dispatch_generated w event db =
     (case handler_fault_generated w of
        Some err \<Rightarrow> (Inl err, db)
      | None \<Rightarrow>
          (let operation = (case ev_operation event of None \<Rightarrow> PNone | Some v \<Rightarrow> v) in
           if \<not> truthy operation then (Inl (Exn ''ValueError'' ''Missing 'operation' in event''), db)
           else if operation = PStr ''health'' then health_branch w db
           else if operation = PStr ''create_user'' then
             (let user_data = (case ev_data event of None \<Rightarrow> [] | Some d \<Rightarrow> d) in
              if user_data = [] then
                (Inl (Exn ''ValueError'' ''Missing 'data' for create_user operation''), db)
              else
                case create_user (crypto_generated w) (srv_generated w) db user_data of
                  (Inl err, db1, evs) \<Rightarrow> (Inl err, db1)
                | (Inr created, db1, evs) \<Rightarrow>
                    (Inr \<lparr> statusCode = 200,
                           body = [(''operation'', JStr ''create_user''),
                                   (''result'',
                                      JObj [(''user_id'', JStr (cu_user_id created)),
                                            (''fields_processed'',
                                               JArr (map JStr (cu_fields_processed created)))]),
                                   (''success'', JBool True)] \<rparr>, db1))
           else if operation = PStr ''get_user'' then
             (let user_id = (case ev_user_id event of None \<Rightarrow> PNone | Some u \<Rightarrow> u) in
              if \<not> truthy user_id then
                (Inl (Exn ''ValueError'' ''Missing 'user_id' for get_user operation''), db)
              else
                case get_user (crypto_generated w) (srv_generated w) db (py_str user_id) of
                  Inl err \<Rightarrow> (Inl err, db)
                | Inr None \<Rightarrow>
                    (Inr \<lparr> statusCode = 404,
                           body = [(''error'', JStr ''User not found''),
                                   (''user_id'', jv_of_pyval user_id),
                                   (''success'', JBool False)] \<rparr>, db)
                | Inr (Some found) \<Rightarrow>
                    (Inr \<lparr> statusCode = 200,
                           body = [(''operation'', JStr ''get_user''),
                                   (''result'', jv_of_fields found),
                                   (''success'', JBool True)] \<rparr>, db))
           else if operation = PStr ''list_users'' then list_users_branch w event db
           else if operation = PStr ''audit_trail'' then audit_trail_branch w event db
           else
             (Inr \<lparr> statusCode = 400,
                    body = [(''error'', JStr (''Unknown operation: '' @ py_str operation)),
                            (''supported_operations'',
                               JArr (map JStr [''health'', ''create_user'', ''get_user'',
                                               ''list_users'', ''audit_trail''])),
                            (''success'', JBool False)] \<rparr>, db)))"

text \<open>The \<open>except Exception\<close> clause is the one of the package's \<open>lambda_handler\<close>.\<close>

definition lambda_handler_generated ::
  "world_generated \<Rightarrow> event \<Rightarrow> database \<Rightarrow> response \<times> database" where
  "lambda_handler_generated w event db =
     (case dispatch_generated w event db of
        (Inl err, db1) \<Rightarrow> (error_envelope err, db1)
      | (Inr resp, db1) \<Rightarrow> (resp, db1))"

section \<open>A concrete environment\<close>

text \<open>
  A small environment on which the model can be run: the envelope service prefixes the
  plaintext with a marker byte, the local cipher prefixes it with the key, the codecs
  are the identity, and the secret holds two key versions, the second one current.
\<close>

definition demo_env :: env where
  "demo_env =
     \<lparr> kms_encrypt = (\<lambda>alias plaintext. Inr (CHR ''K'' # plaintext)),
       kms_decrypt = (\<lambda>blob.
         case blob of
           [] \<Rightarrow> Inl (Exn ''InvalidCiphertextException'' ''empty'')
         | x # rest \<Rightarrow>
             if x = CHR ''K'' then Inr rest
             else Inl (Exn ''InvalidCiphertextException'' ''bad blob'')),
       secret_app_keys = Inr [(''current_version'', PInt 2),
         (''level3_app_key_v1'', PStr ''k1''), (''level3_app_key_v2'', PStr ''k2'')],
       fernet_new = (\<lambda>key. if key = [] then Some (Exn ''ValueError'' ''bad key'') else None),
       fernet_encrypt = (\<lambda>key plaintext. key @ plaintext),
       fernet_decrypt = (\<lambda>key token.
         if take (length key) token = key then Inr (drop (length key) token)
         else Inl (Exn ''InvalidToken'' [])),
       b64encode = (\<lambda>blob. blob),
       b64decode = (\<lambda>s. Inr s),
       utf8_encode = (\<lambda>s. Inr s),
       utf8_decode = (\<lambda>b. Inr b) \<rparr>"

text \<open>
  A database server that accepts everything and numbers the users, one that refuses
  every connection, and one that rejects every insert into the metadata table.
\<close>

definition demo_server :: db_server where
  "demo_server =
     \<lparr> connect_fault = None,
       execute_fault = (\<lambda>view st. None),
       commit_fault = None,
       new_user_id = (\<lambda>view. ''u'' @ str_nat (Suc (length (users view)))),
       users_columns =
         [''id'', ''email'', ''first_name'', ''last_name'', ''phone'', ''address_encrypted'',
          ''dob_encrypted'', ''ssn_encrypted'', ''bank_account_encrypted'',
          ''credit_card_encrypted'', ''created_at'', ''updated_at''] \<rparr>"

definition down_server :: db_server where
  "down_server = demo_server\<lparr> connect_fault := Some (Exn ''OperationalError'' ''connection refused'') \<rparr>"

definition metadata_rejecting_server :: db_server where
  "metadata_rejecting_server =
     demo_server\<lparr> execute_fault := (\<lambda>view st.
       case st of
         InsertMetadata row \<Rightarrow> Some (Exn ''IntegrityError'' ''check constraint'')
       | _ \<Rightarrow> None) \<rparr>"

definition empty_db :: database where
  "empty_db = \<lparr> users = [], encryption_metadata = [], encryption_audit = [] \<rparr>"

text \<open>
  A world around \<open>demo_env\<close> and \<open>demo_server\<close>. The handlers that the model takes
  as parameters answer with a plain success envelope here.
\<close>

definition plain_ok :: response where
  "plain_ok = \<lparr> statusCode = 200, body = [(''success'', JBool True)] \<rparr>"

definition demo_world :: world where
  "demo_world =
     \<lparr> crypto = demo_env,
       main_srv = demo_server,
       audit_srv = (\<lambda>field_name. demo_server),
       handler_fault = None,
       handle_health_check = (\<lambda>db. (Inr plain_ok, db)),
       handle_list_users_operation = (\<lambda>event db. (Inr plain_ok, db)),
       handle_delete_user_operation = (\<lambda>event db. (Inr plain_ok, db)),
       handle_audit_trail_operation = (\<lambda>event db. (Inr plain_ok, db)) \<rparr>"

text \<open>
  A database with one user whose \<open>ssn\<close> ciphertext is damaged (the envelope service
  rejects it), while the \<open>address\<close> ciphertext is intact.
\<close>

definition damaged_db :: database where
  "damaged_db =
     \<lparr> users =
         [\<lparr> u_id = ''u1'',
            u_columns = [(''email'', Some ''a@b.com''), (''ssn_encrypted'', Some ''garbage''),
                         (''address_encrypted'', Some ''K1 Main St'')] \<rparr>],
       encryption_metadata =
         [\<lparr> md_user_id = ''u1'', md_field_name = ''ssn'', md_pii_level = PInt 3,
             md_app_key_version = PInt 2, md_kms_key_alias = PStr ''alias/pii-level3'',
             md_encryption_algorithm = PNone \<rparr>,
          \<lparr> md_user_id = ''u1'', md_field_name = ''address'', md_pii_level = PInt 2,
             md_app_key_version = PNone, md_kms_key_alias = PStr ''alias/pii-level2'',
             md_encryption_algorithm = PNone \<rparr>],
       encryption_audit = [] \<rparr>"

definition no_event :: event where
  "no_event =
     \<lparr> ev_operation = None, ev_data = None, ev_user_id = None, ev_encrypted_data = None,
       ev_metadata = None, ev_limit = None, ev_offset = None \<rparr>"

text \<open>The same surroundings for the generated dispatcher.\<close>

definition demo_world_generated :: world_generated where
  "demo_world_generated =
     \<lparr> crypto_generated = demo_env,
       srv_generated = demo_server,
       handler_fault_generated = None,
       health_branch = (\<lambda>db. (Inr plain_ok, db)),
       list_users_branch = (\<lambda>event db. (Inr plain_ok, db)),
       audit_trail_branch = (\<lambda>event db. (Inr plain_ok, db)) \<rparr>"

section \<open>Auxiliary facts\<close>

lemma io_bind_Inr [simp]: "io_bind (cs, Inr x) f = (cs @ fst (f x), snd (f x))"
  by (simp add: io_bind_def split: prod.splits)

lemma io_bind_Inl [simp]: "io_bind (cs, Inl err) f = (cs, Inl err)"
  by (simp add: io_bind_def)

lemma io_bind_return [simp]: "io_bind (io_return x) f = f x"
  by (simp add: io_return_def)

lemma io_bind_lift_Inr [simp]: "io_bind (io_lift (Inr x)) f = f x"
  by (simp add: io_lift_def)

lemma io_bind_lift_Inl [simp]: "io_bind (io_lift (Inl err)) f = ([], Inl err)"
  by (simp add: io_lift_def)

lemma dict_item_Some [simp]: "map_of d k = Some v \<Longrightarrow> dict_item d k = Inr v"
  by (simp add: dict_item_def)

lemma req_level_classify [simp]:
  "req_level (get_encryption_requirements field_name) = classify_pii_level field_name"
  by (simp add: get_encryption_requirements_def Let_def)

lemma get_current_app_cipher_ok:
  assumes "secret_app_keys e = Inr keys"
    and "map_of keys ''current_version'' = Some cv"
    and "map_of keys (''level3_app_key_v'' @ py_str cv) = Some (PStr k)"
    and "fernet_new e k = None"
  shows "get_current_app_cipher e = ([GetAppKeys], Inr k)"
  using assms
  by (simp add: get_current_app_cipher_def get_app_keys_def make_cipher_def io_lift_def)

lemma get_app_cipher_for_version_ok:
  assumes "secret_app_keys e = Inr keys"
    and "map_of keys (''level3_app_key_v'' @ py_str ver) = Some (PStr k)"
    and "fernet_new e k = None"
  shows "get_app_cipher_for_version e ver = ([GetAppKeys], Inr k)"
  using assms
  by (simp add: get_app_cipher_for_version_def get_app_keys_def make_cipher_def io_lift_def)

text \<open>What a successful level-2 or level-3 encryption has computed.\<close>

lemma encrypt_field_level2_result:
  assumes "classify_pii_level field_name = 2" and "v \<noteq> []"
    and "encrypt_field e field_name (Some v) = (cs, Inr (Some r))"
  obtains p blob where "utf8_encode e v = Inr p"
    and "kms_encrypt e level2_kms_alias p = Inr blob"
    and "res_value r = Some (b64encode e blob)" and "res_level r = 2"
    and "res_app_key_version r = None"
proof (cases "utf8_encode e v")
  case (Inl err)
  with assms show thesis
    by (simp add: encrypt_field_def Let_def io_lift_def)
next
  case p: (Inr p)
  show thesis
  proof (cases "kms_encrypt e level2_kms_alias p")
    case (Inl err)
    with assms p show thesis
      by (simp add: encrypt_field_def Let_def io_lift_def call_kms_encrypt_def)
  next
    case (Inr blob)
    with assms p have "res_value r = Some (b64encode e blob)" "res_level r = 2"
      "res_app_key_version r = None"
      by (auto simp: encrypt_field_def Let_def io_lift_def call_kms_encrypt_def io_return_def)
    with p Inr show thesis using that by blast
  qed
qed

lemma get_current_app_cipher_result:
  assumes "get_current_app_cipher e = (cs, Inr k)"
  obtains keys cv where "secret_app_keys e = Inr keys"
    and "map_of keys ''current_version'' = Some cv"
    and "map_of keys (''level3_app_key_v'' @ py_str cv) = Some (PStr k)"
    and "fernet_new e k = None" and "cs = [GetAppKeys]"
proof (cases "secret_app_keys e")
  case (Inl err)
  with assms show thesis
    by (simp add: get_current_app_cipher_def get_app_keys_def)
next
  case keys: (Inr keys)
  show thesis
  proof (cases "map_of keys ''current_version''")
    case None
    with assms keys show thesis
      by (simp add: get_current_app_cipher_def get_app_keys_def dict_item_def io_lift_def)
  next
    case cv: (Some cv)
    show thesis
    proof (cases "map_of keys (''level3_app_key_v'' @ py_str cv)")
      case None
      with assms keys cv show thesis
        by (simp add: get_current_app_cipher_def get_app_keys_def dict_item_def io_lift_def)
    next
      case (Some key)
      with assms keys cv have "key = PStr k \<and> fernet_new e k = None \<and> cs = [GetAppKeys]"
        by (auto simp: get_current_app_cipher_def get_app_keys_def io_lift_def make_cipher_def
            split: pyval.splits option.splits)
      with keys cv Some show thesis using that by blast
    qed
  qed
qed

lemma encrypt_field_level3_result:
  assumes "classify_pii_level field_name = 3" and "v \<noteq> []"
    and "encrypt_field e field_name (Some v) = (cs, Inr (Some r))"
  obtains keys cv k p blob where "secret_app_keys e = Inr keys"
    and "map_of keys ''current_version'' = Some cv"
    and "map_of keys (''level3_app_key_v'' @ py_str cv) = Some (PStr k)"
    and "fernet_new e k = None"
    and "utf8_encode e v = Inr p"
    and "kms_encrypt e level3_kms_alias (fernet_encrypt e k p) = Inr blob"
    and "res_value r = Some (b64encode e blob)" and "res_level r = 3"
    and "res_app_key_version r = Some cv"
proof -
  obtain cs1 res where c: "get_current_app_cipher e = (cs1, res)"
    by (cases "get_current_app_cipher e")
  have "\<exists>k. res = Inr k"
  proof (cases res)
    case (Inl err)
    with assms c show ?thesis by (simp add: encrypt_field_def Let_def)
  qed simp
  then obtain k where k: "get_current_app_cipher e = (cs1, Inr k)" using c by blast
  from k obtain keys cv where keys: "secret_app_keys e = Inr keys"
    "map_of keys ''current_version'' = Some cv"
    "map_of keys (''level3_app_key_v'' @ py_str cv) = Some (PStr k)"
    "fernet_new e k = None" "cs1 = [GetAppKeys]"
    by (rule get_current_app_cipher_result)
  show thesis
  proof (cases "utf8_encode e v")
    case (Inl err)
    with assms k show thesis by (simp add: encrypt_field_def Let_def io_lift_def)
  next
    case p: (Inr p)
    show thesis
    proof (cases "kms_encrypt e level3_kms_alias (fernet_encrypt e k p)")
      case (Inl err)
      with assms k p show thesis
        by (simp add: encrypt_field_def Let_def io_lift_def call_kms_encrypt_def
            call_fernet_encrypt_def)
    next
      case (Inr blob)
      with assms k p keys have "res_value r = Some (b64encode e blob)" "res_level r = 3"
        "res_app_key_version r = Some cv"
        by (auto simp: encrypt_field_def Let_def io_lift_def call_kms_encrypt_def
            call_fernet_encrypt_def get_app_keys_def io_return_def)
      with keys p Inr show thesis using that by blast
    qed
  qed
qed

section \<open>Properties of the encryption handler\<close>

text \<open>
  C5. For every field name, whatever its classification, \<open>encrypt_field\<close> applied to
  \<open>None\<close> or to the empty string returns the dictionary with \<open>value = None\<close>,
  \<open>encrypted = False\<close> and \<open>level = 1\<close> (and the field's name), and the list of calls
  to the collaborators is empty: no encryption step, no key lookup. The statement holds
  in every environment, also one whose services all raise.
\<close>

theorem encrypt_field_empty_short_circuit:
  "encrypt_field e field_name None =
     ([], Inr (Some \<lparr> res_value = None, res_encrypted = False, res_level = 1,
        res_field_name = field_name, res_method = None, res_app_key_version = None,
        res_kms_key = None \<rparr>))
   \<and> encrypt_field e field_name (Some []) =
     ([], Inr (Some \<lparr> res_value = None, res_encrypted = False, res_level = 1,
        res_field_name = field_name, res_method = None, res_app_key_version = None,
        res_kms_key = None \<rparr>))"
  by (simp add: encrypt_field_def io_return_def)



lemma str_int_1 [simp]: "str_int 1 = ''1''"
  by code_simp

lemma decrypt_field_level3_ok:
  assumes "c \<noteq> []"
    and "metadata_level metadata (PInt (classify_pii_level field_name)) = PInt 3"
    and "b64decode e c = Inr ct" and "kms_decrypt e ct = Inr pt"
    and "secret_app_keys e = Inr keys"
    and "map_of keys (''level3_app_key_v'' @ py_str (metadata_app_key_version metadata)) = Some (PStr k)"
    and "fernet_new e k = None"
  shows "decrypt_field e field_name (Some c) metadata =
     ([KmsDecrypt ct, GetAppKeys, FernetDecrypt k pt],
      (case fernet_decrypt e k pt of
         Inl err \<Rightarrow> Inl err
       | Inr d \<Rightarrow> (case utf8_decode e d of Inl err \<Rightarrow> Inl err | Inr s \<Rightarrow> Inr (Some s))))"
  using assms
  by (simp add: decrypt_field_def Let_def get_app_cipher_for_version_ok [OF assms(5-7)]
      call_fernet_decrypt_def call_kms_decrypt_def io_return_def io_lift_def split: sum.splits)

lemma encrypt_field_level3_ok:
  assumes "classify_pii_level field_name = 3" and "v \<noteq> []"
    and "secret_app_keys e = Inr keys"
    and "map_of keys ''current_version'' = Some cv"
    and "map_of keys (''level3_app_key_v'' @ py_str cv) = Some (PStr k)"
    and "fernet_new e k = None"
    and "utf8_encode e v = Inr p"
    and "kms_encrypt e level3_kms_alias (fernet_encrypt e k p) = Inr blob"
  shows "encrypt_field e field_name (Some v) =
     ([GetAppKeys, FernetEncrypt k p, KmsEncrypt level3_kms_alias (fernet_encrypt e k p), GetAppKeys],
      Inr (Some \<lparr> res_value = Some (b64encode e blob), res_encrypted = True, res_level = 3,
        res_field_name = field_name, res_method = Some ''double_encryption'',
        res_app_key_version = Some cv, res_kms_key = Some level3_kms_alias \<rparr>))"
  using assms
  by (simp add: encrypt_field_def Let_def get_current_app_cipher_ok [OF assms(3-6)]
      call_fernet_encrypt_def call_kms_encrypt_def get_app_keys_def io_return_def)

lemma metadata_app_key_version_default:
  assumes "metadata = None \<or> (\<exists>md. metadata = Some md \<and> map_of md ''app_key_version'' = None)"
  shows "metadata_app_key_version metadata = PInt 1"
  using assms by (auto simp: metadata_app_key_version_def)

text \<open>
  C9. When \<open>decrypt_field\<close> handles a non-empty ciphertext at level 3 and the metadata is
  absent, or is a dictionary without an \<open>app_key_version\<close> entry, the missing version is
  no error: the function behaves in every environment exactly as it does on metadata
  that records level 3 and key version 1. In particular, when base64 decoding and the
  envelope decryption succeed and the secret holds a valid key \<open>level3_app_key_v1\<close>, it
  calls the local cipher with that key on the envelope's plaintext.
\<close>

theorem decrypt_field_missing_version_defaults_to_1:
  assumes "c \<noteq> []"
    and "metadata = None \<or> (\<exists>md. metadata = Some md \<and> map_of md ''app_key_version'' = None)"
    and "metadata_level metadata (PInt (classify_pii_level field_name)) = PInt 3"
  shows "decrypt_field e field_name (Some c) metadata =
           decrypt_field e field_name (Some c) (Some [(''level'', PInt 3), (''app_key_version'', PInt 1)])
     \<and> (\<forall>ct pt keys k.
          b64decode e c = Inr ct \<and> kms_decrypt e ct = Inr pt \<and> secret_app_keys e = Inr keys
          \<and> map_of keys ''level3_app_key_v1'' = Some (PStr k) \<and> fernet_new e k = None
          \<longrightarrow> decrypt_field e field_name (Some c) metadata =
                ([KmsDecrypt ct, GetAppKeys, FernetDecrypt k pt],
                 (case fernet_decrypt e k pt of
                    Inl err \<Rightarrow> Inl err
                  | Inr d \<Rightarrow>
                      (case utf8_decode e d of Inl err \<Rightarrow> Inl err | Inr s \<Rightarrow> Inr (Some s)))))"
proof (intro conjI allI impI)
  have v1: "metadata_app_key_version metadata = PInt 1"
    using assms(2) by (rule metadata_app_key_version_default)
  have v1': "metadata_app_key_version (Some [(''level'', PInt 3), (''app_key_version'', PInt 1)]) = PInt 1"
    by (simp add: metadata_app_key_version_def)
  have l3: "metadata_level (Some [(''level'', PInt 3), (''app_key_version'', PInt 1)])
              (PInt (classify_pii_level field_name)) = PInt 3"
    by (simp add: metadata_level_def)
  show "decrypt_field e field_name (Some c) metadata =
           decrypt_field e field_name (Some c) (Some [(''level'', PInt 3), (''app_key_version'', PInt 1)])"
    using assms(1,3) l3 v1 v1' by (simp add: decrypt_field_def Let_def)
  fix ct pt keys k
  assume ok: "b64decode e c = Inr ct \<and> kms_decrypt e ct = Inr pt \<and> secret_app_keys e = Inr keys
          \<and> map_of keys ''level3_app_key_v1'' = Some (PStr k) \<and> fernet_new e k = None"
  show "decrypt_field e field_name (Some c) metadata =
                ([KmsDecrypt ct, GetAppKeys, FernetDecrypt k pt],
                 (case fernet_decrypt e k pt of
                    Inl err \<Rightarrow> Inl err
                  | Inr d \<Rightarrow>
                      (case utf8_decode e d of Inl err \<Rightarrow> Inl err | Inr s \<Rightarrow> Inr (Some s))))"
  proof (rule decrypt_field_level3_ok [OF assms(1) assms(3)])
    show "b64decode e c = Inr ct" "kms_decrypt e ct = Inr pt" "secret_app_keys e = Inr keys"
      "fernet_new e k = None"
      using ok by simp_all
    show "map_of keys (''level3_app_key_v'' @ py_str (metadata_app_key_version metadata)) = Some (PStr k)"
      using ok v1 by simp
  qed
qed

theorem decrypt_field_missing_version_defaults_to_1_witness:
  "metadata_level None (PInt (classify_pii_level ''ssn'')) = PInt 3
   \<and> decrypt_field demo_env ''ssn'' (Some ''Kk1123'') None =
       ([KmsDecrypt ''Kk1123'', GetAppKeys, FernetDecrypt ''k1'' ''k1123''], Inr (Some ''123''))
   \<and> decrypt_field demo_env ''ssn'' (Some ''Kk1123'') None =
       decrypt_field demo_env ''ssn'' (Some ''Kk1123'')
         (Some [(''level'', PInt 3), (''app_key_version'', PInt 1)])"
proof -
  have lvl: "metadata_level None (PInt (classify_pii_level ''ssn'')) = PInt 3"
    by code_simp
  have ne: "''Kk1123'' \<noteq> []" by simp
  note inst = decrypt_field_missing_version_defaults_to_1 [OF ne _ lvl, of demo_env]
  have a: "decrypt_field demo_env ''ssn'' (Some ''Kk1123'') None =
       decrypt_field demo_env ''ssn'' (Some ''Kk1123'')
         (Some [(''level'', PInt 3), (''app_key_version'', PInt 1)])"
    using inst by simp
  have b: "decrypt_field demo_env ''ssn'' (Some ''Kk1123'') None =
       ([KmsDecrypt ''Kk1123'', GetAppKeys, FernetDecrypt ''k1'' ''k1123''],
         (case fernet_decrypt demo_env ''k1'' ''k1123'' of
                    Inl err \<Rightarrow> Inl err
                  | Inr d \<Rightarrow>
                      (case utf8_decode demo_env d of Inl err \<Rightarrow> Inl err | Inr s \<Rightarrow> Inr (Some s))))"
    using inst [THEN conjunct2, rule_format, of "''Kk1123''" "''k1123''" _ "''k1''"]
    by (simp add: demo_env_def)
  from lvl a b show ?thesis by (simp add: demo_env_def)
qed

text \<open>
  C2 (as amended). In the package's \<open>EncryptionHandler\<close>, for a level-3 field and a
  non-empty value whose steps succeed, \<open>encrypt_field\<close> first applies the local cipher
  under the key of the secret's current version, then the envelope service (alias
  \<open>alias/pii-level3\<close>) to the local ciphertext, and returns the base64 text of the
  envelope's blob together with the current key version; \<open>decrypt_field\<close> at level 3
  first applies the envelope decryption to the base64-decoded ciphertext and then the
  local cipher under the key of the version that the metadata records. The generated
  handler's \<open>encrypt_field\<close> applies only the envelope service to the encoded value of a
  level-3 field, and its result has no key version.
\<close>

theorem level3_double_encryption:
  "(classify_pii_level field_name = 3 \<and> v \<noteq> [] \<and> secret_app_keys e = Inr keys
      \<and> map_of keys ''current_version'' = Some cv
      \<and> map_of keys (''level3_app_key_v'' @ py_str cv) = Some (PStr k)
      \<and> fernet_new e k = None \<and> utf8_encode e v = Inr p
      \<and> kms_encrypt e level3_kms_alias (fernet_encrypt e k p) = Inr blob
    \<longrightarrow> encrypt_field e field_name (Some v) =
          ([GetAppKeys, FernetEncrypt k p, KmsEncrypt level3_kms_alias (fernet_encrypt e k p),
            GetAppKeys],
           Inr (Some \<lparr> res_value = Some (b64encode e blob), res_encrypted = True, res_level = 3,
             res_field_name = field_name, res_method = Some ''double_encryption'',
             res_app_key_version = Some cv, res_kms_key = Some level3_kms_alias \<rparr>)))
   \<and> (c \<noteq> [] \<and> metadata_level (Some md) (PInt (classify_pii_level field_name)) = PInt 3
      \<and> map_of md ''app_key_version'' = Some ver
      \<and> b64decode e c = Inr ct \<and> kms_decrypt e ct = Inr pt \<and> secret_app_keys e = Inr keys'
      \<and> map_of keys' (''level3_app_key_v'' @ py_str ver) = Some (PStr k')
      \<and> fernet_new e k' = None
    \<longrightarrow> decrypt_field e field_name (Some c) (Some md) =
          ([KmsDecrypt ct, GetAppKeys, FernetDecrypt k' pt],
           (case fernet_decrypt e k' pt of
              Inl err \<Rightarrow> Inl err
            | Inr d \<Rightarrow> (case utf8_decode e d of Inl err \<Rightarrow> Inl err | Inr s \<Rightarrow> Inr (Some s)))))
   \<and> (classify_pii_level_generated field_name = 3 \<and> v \<noteq> [] \<and> utf8_encode e v = Inr p
      \<and> kms_encrypt e level3_kms_alias p = Inr blob'
    \<longrightarrow> encrypt_field_generated e field_name (Some v) =
          ([KmsEncrypt level3_kms_alias p],
           Inr (Some \<lparr> res_value = Some (b64encode e blob'), res_encrypted = True, res_level = 3,
             res_field_name = field_name, res_method = Some ''kms_level3'',
             res_app_key_version = None, res_kms_key = Some level3_kms_alias,
             res_db_field = db_field_of field_name \<rparr>)))"
proof (intro conjI impI)
  assume "classify_pii_level field_name = 3 \<and> v \<noteq> [] \<and> secret_app_keys e = Inr keys
      \<and> map_of keys ''current_version'' = Some cv
      \<and> map_of keys (''level3_app_key_v'' @ py_str cv) = Some (PStr k)
      \<and> fernet_new e k = None \<and> utf8_encode e v = Inr p
      \<and> kms_encrypt e level3_kms_alias (fernet_encrypt e k p) = Inr blob"
  then show "encrypt_field e field_name (Some v) =
          ([GetAppKeys, FernetEncrypt k p, KmsEncrypt level3_kms_alias (fernet_encrypt e k p),
            GetAppKeys],
           Inr (Some \<lparr> res_value = Some (b64encode e blob), res_encrypted = True, res_level = 3,
             res_field_name = field_name, res_method = Some ''double_encryption'',
             res_app_key_version = Some cv, res_kms_key = Some level3_kms_alias \<rparr>))"
    by (elim conjE) (rule encrypt_field_level3_ok; assumption)
next
  assume a: "c \<noteq> [] \<and> metadata_level (Some md) (PInt (classify_pii_level field_name)) = PInt 3
      \<and> map_of md ''app_key_version'' = Some ver
      \<and> b64decode e c = Inr ct \<and> kms_decrypt e ct = Inr pt \<and> secret_app_keys e = Inr keys'
      \<and> map_of keys' (''level3_app_key_v'' @ py_str ver) = Some (PStr k')
      \<and> fernet_new e k' = None"
  then have "md \<noteq> []" by auto
  with a have ver: "metadata_app_key_version (Some md) = ver"
    by (simp add: metadata_app_key_version_def)
  show "decrypt_field e field_name (Some c) (Some md) =
          ([KmsDecrypt ct, GetAppKeys, FernetDecrypt k' pt],
           (case fernet_decrypt e k' pt of
              Inl err \<Rightarrow> Inl err
            | Inr d \<Rightarrow> (case utf8_decode e d of Inl err \<Rightarrow> Inl err | Inr s \<Rightarrow> Inr (Some s))))"
  proof (rule decrypt_field_level3_ok)
    show "map_of keys' (''level3_app_key_v'' @ py_str (metadata_app_key_version (Some md))) = Some (PStr k')"
      using a ver by simp
  qed (use a in simp_all)
next
  assume "classify_pii_level_generated field_name = 3 \<and> v \<noteq> [] \<and> utf8_encode e v = Inr p
      \<and> kms_encrypt e level3_kms_alias p = Inr blob'"
  then show "encrypt_field_generated e field_name (Some v) =
          ([KmsEncrypt level3_kms_alias p],
           Inr (Some \<lparr> res_value = Some (b64encode e blob'), res_encrypted = True, res_level = 3,
             res_field_name = field_name, res_method = Some ''kms_level3'',
             res_app_key_version = None, res_kms_key = Some level3_kms_alias,
             res_db_field = db_field_of field_name \<rparr>))"
    by (simp add: encrypt_field_generated_def Let_def call_kms_encrypt_def io_return_def)
qed

theorem level3_double_encryption_witness:
  "encrypt_field demo_env ''ssn'' (Some ''123'') =
     ([GetAppKeys, FernetEncrypt ''k2'' ''123'', KmsEncrypt ''alias/pii-level3'' ''k2123'',
       GetAppKeys],
      Inr (Some \<lparr> res_value = Some ''Kk2123'', res_encrypted = True, res_level = 3,
        res_field_name = ''ssn'', res_method = Some ''double_encryption'',
        res_app_key_version = Some (PInt 2), res_kms_key = Some ''alias/pii-level3'' \<rparr>))
   \<and> decrypt_field demo_env ''ssn'' (Some ''Kk2123'')
       (Some [(''level'', PInt 3), (''app_key_version'', PInt 2)]) =
     ([KmsDecrypt ''Kk2123'', GetAppKeys, FernetDecrypt ''k2'' ''k2123''], Inr (Some ''123''))
   \<and> encrypt_field_generated demo_env ''ssn'' (Some ''123'') =
     ([KmsEncrypt ''alias/pii-level3'' ''123''],
      Inr (Some \<lparr> res_value = Some ''K123'', res_encrypted = True, res_level = 3,
        res_field_name = ''ssn'', res_method = Some ''kms_level3'',
        res_app_key_version = None, res_kms_key = Some ''alias/pii-level3'',
        res_db_field = ''ssn_encrypted'' \<rparr>))"
proof -
  have l: "classify_pii_level ''ssn'' = 3"
    by code_simp
  have lg: "classify_pii_level_generated ''ssn'' = 3"
    by code_simp
  have s2: "str_int 2 = ''2''"
    by code_simp
  note inst = level3_double_encryption [where field_name = "''ssn''" and v = "''123''"
      and e = demo_env and cv = "PInt 2" and k = "''k2''" and p = "''123''"
      and blob = "''Kk2123''" and c = "''Kk2123''"
      and md = "[(''level'', PInt 3), (''app_key_version'', PInt 2)]" and ver = "PInt 2"
      and ct = "''Kk2123''" and pt = "''k2123''" and k' = "''k2''" and blob' = "''K123''"
      and keys = "[(''current_version'', PInt 2), (''level3_app_key_v1'', PStr ''k1''),
                   (''level3_app_key_v2'', PStr ''k2'')]"
      and keys' = "[(''current_version'', PInt 2), (''level3_app_key_v1'', PStr ''k1''),
                   (''level3_app_key_v2'', PStr ''k2'')]"]
  show ?thesis
    using inst l lg s2
    by (simp add: demo_env_def metadata_level_def db_field_of_def FIELD_MAPPING_def
        level3_kms_alias_def)
qed

text \<open>
  The claim as stated, for every level-3 encryption of the repository, fails on the
  generated handler: its result for \<open>ssn\<close> comes from one call of the envelope service
  on the plaintext, with no call of a local cipher and no key version.
\<close>

theorem generated_level3_envelope_only:
  "classify_pii_level_generated ''ssn'' = 3
   \<and> encrypt_field_generated demo_env ''ssn'' (Some ''123'') =
     ([KmsEncrypt ''alias/pii-level3'' ''123''],
      Inr (Some \<lparr> res_value = Some ''K123'', res_encrypted = True, res_level = 3,
        res_field_name = ''ssn'', res_method = Some ''kms_level3'',
        res_app_key_version = None, res_kms_key = Some ''alias/pii-level3'',
        res_db_field = ''ssn_encrypted'' \<rparr>))"
  by code_simp

section \<open>Properties of the database manager and the create handler\<close>

text \<open>Statements on a connection touch the transaction's view only.\<close>

lemma execute_insert_metadata_committed:
  "execute_insert_metadata srv row conn = (r, conn1) \<Longrightarrow>
     committed conn1 = committed conn \<and> events conn1 = events conn"
  by (auto simp: execute_insert_metadata_def split: option.splits)

lemma execute_insert_user_committed:
  "execute_insert_user srv cols vals conn = (r, conn1) \<Longrightarrow>
     committed conn1 = committed conn \<and> events conn1 = events conn"
  by (auto simp: execute_insert_user_def Let_def split: option.splits)

lemma insert_all_metadata_committed:
  "insert_all_metadata srv conn user_id metadata = (r, conn1) \<Longrightarrow>
     committed conn1 = committed conn \<and> events conn1 = events conn"
proof (induction metadata arbitrary: conn)
  case Nil
  then show ?case by simp
next
  case (Cons entry rest)
  obtain f m where entry: "entry = (f, m)" by (cases entry)
  obtain r0 c0 where step: "insert_metadata srv conn user_id f m = (r0, c0)"
    by (cases "insert_metadata srv conn user_id f m")
  then have c0: "committed c0 = committed conn \<and> events c0 = events conn"
    by (simp add: insert_metadata_def execute_insert_metadata_committed)
  show ?case
  proof (cases r0)
    case (Inl err)
    with Cons.prems entry step c0 show ?thesis by auto
  next
    case (Inr u)
    with Cons.prems entry step have "insert_all_metadata srv c0 user_id rest = (r, conn1)"
      by simp
    from Cons.IH [OF this] c0 show ?thesis by simp
  qed
qed

lemma insert_all_metadata_pending:
  "insert_all_metadata srv conn user_id metadata = (Inr u, conn1) \<Longrightarrow>
     pending conn1 = (pending conn)\<lparr> encryption_metadata :=
       encryption_metadata (pending conn) @ map (metadata_row_of user_id) metadata \<rparr>"
proof (induction metadata arbitrary: conn)
  case Nil
  then show ?case by simp
next
  case (Cons entry rest)
  obtain f m where entry: "entry = (f, m)" by (cases entry)
  obtain r0 c0 where step: "insert_metadata srv conn user_id f m = (r0, c0)"
    by (cases "insert_metadata srv conn user_id f m")
  show ?case
  proof (cases r0)
    case (Inl err)
    with Cons.prems entry step show ?thesis by simp
  next
    case (Inr u0)
    with step have c0: "pending c0 = (pending conn)\<lparr> encryption_metadata :=
        encryption_metadata (pending conn) @ [metadata_row_of user_id (f, m)] \<rparr>"
      by (auto simp: insert_metadata_def execute_insert_metadata_def metadata_row_of_def
          split: option.splits)
    from Inr Cons.prems entry step have "insert_all_metadata srv c0 user_id rest = (Inr u, conn1)"
      by simp
    from Cons.IH [OF this] c0 entry show ?thesis by simp
  qed
qed

lemma store_try_failure:
  "store_try srv conn data = (Inl err, conn1) \<Longrightarrow>
     committed conn1 = committed conn \<and> events conn1 = events conn"
  by (auto simp: store_try_def Let_def conn_commit_def
      split: if_splits prod.splits sum.splits option.splits
      dest!: execute_insert_user_committed insert_all_metadata_committed)

lemma store_try_success:
  assumes "store_try srv conn data = (Inr user_id, conn1)"
  shows "committed conn1 =
           (pending conn)\<lparr> users := users (pending conn) @
               [\<lparr> u_id = user_id,
                   u_columns = zip (fst (collect_insert (ed_fields data)))
                                   (snd (collect_insert (ed_fields data))) \<rparr>],
             encryption_metadata := encryption_metadata (pending conn) @
               map (metadata_row_of user_id) (ed_metadata data) \<rparr>
         \<and> events conn1 = events conn @ [Commit]
         \<and> fst (collect_insert (ed_fields data)) \<noteq> []"
proof -
  let ?cols = "fst (collect_insert (ed_fields data))"
  let ?vals = "snd (collect_insert (ed_fields data))"
  from assms have ne: "?cols \<noteq> []"
    by (auto simp: store_try_def Let_def split: if_splits)
  obtain r1 c1 where s1: "execute_insert_user srv ?cols ?vals conn = (r1, c1)"
    by (cases "execute_insert_user srv ?cols ?vals conn")
  from assms ne s1 obtain uid where r1: "r1 = Inr uid"
    by (cases r1) (auto simp: store_try_def Let_def)
  obtain r2 c2 where s2: "insert_all_metadata srv c1 uid (ed_metadata data) = (r2, c2)"
    by (cases "insert_all_metadata srv c1 uid (ed_metadata data)")
  from assms ne s1 r1 s2 obtain u where r2: "r2 = Inr u"
    by (cases r2) (auto simp: store_try_def Let_def)
  from assms ne s1 r1 s2 r2 have fin: "commit_fault srv = None" "uid = user_id"
    "conn1 = c2\<lparr> committed := pending c2, events := events c2 @ [Commit] \<rparr>"
    by (auto simp: store_try_def Let_def conn_commit_def split: option.splits)
  from s1 r1 have c1: "pending c1 = (pending conn)\<lparr> users := users (pending conn) @
      [\<lparr> u_id = uid, u_columns = zip ?cols ?vals \<rparr>] \<rparr>" "events c1 = events conn"
    by (auto simp: execute_insert_user_def Let_def split: option.splits)
  from s2 r2 have c2: "pending c2 = (pending c1)\<lparr> encryption_metadata :=
       encryption_metadata (pending c1) @ map (metadata_row_of uid) (ed_metadata data) \<rparr>"
    by (simp add: insert_all_metadata_pending)
  from s2 have e2: "events c2 = events c1"
    by (simp add: insert_all_metadata_committed)
  from fin c1 c2 e2 ne show ?thesis by simp
qed

lemma store_encrypted_user_failure:
  assumes "store_encrypted_user srv db data = (Inl err, db1, evs)"
  shows "db1 = db \<and> (evs = [] \<or> evs = [Rollback, Close])"
proof (cases "connect_fault srv")
  case (Some e0)
  with assms show ?thesis
    by (simp add: store_encrypted_user_def get_db_connection_def)
next
  case None
  let ?conn = "\<lparr> committed = db, pending = db, events = [] \<rparr>"
  obtain r c1 where st: "store_try srv ?conn data = (r, c1)"
    by (cases "store_try srv ?conn data")
  show ?thesis
  proof (cases r)
    case (Inl e1)
    with st have "committed c1 = db \<and> events c1 = []"
      by (auto dest: store_try_failure)
    with assms None st Inl show ?thesis
      by (auto simp: store_encrypted_user_def get_db_connection_def Let_def conn_close_def
          conn_rollback_def)
  next
    case (Inr uid)
    with assms None st show ?thesis
      by (simp add: store_encrypted_user_def get_db_connection_def Let_def)
  qed
qed

lemma store_encrypted_user_success:
  assumes "store_encrypted_user srv db data = (Inr user_id, db1, evs)"
  shows "evs = [Commit, Close]
     \<and> db1 = db\<lparr> users := users db @
               [\<lparr> u_id = user_id,
                   u_columns = zip (fst (collect_insert (ed_fields data)))
                                   (snd (collect_insert (ed_fields data))) \<rparr>],
             encryption_metadata := encryption_metadata db @
               map (metadata_row_of user_id) (ed_metadata data) \<rparr>
     \<and> fst (collect_insert (ed_fields data)) \<noteq> []"
proof (cases "connect_fault srv")
  case (Some e0)
  with assms show ?thesis
    by (simp add: store_encrypted_user_def get_db_connection_def)
next
  case None
  let ?conn = "\<lparr> committed = db, pending = db, events = [] \<rparr>"
  obtain r c1 where st: "store_try srv ?conn data = (r, c1)"
    by (cases "store_try srv ?conn data")
  show ?thesis
  proof (cases r)
    case (Inl e1)
    with assms None st show ?thesis
      by (simp add: store_encrypted_user_def get_db_connection_def Let_def)
  next
    case (Inr uid)
    with assms None st have uid: "uid = user_id" and db1: "db1 = committed (conn_close c1)"
      and evs: "evs = events (conn_close c1)"
      by (auto simp: store_encrypted_user_def get_db_connection_def Let_def)
    from st Inr uid have "store_try srv ?conn data = (Inr user_id, c1)" by simp
    from store_try_success [OF this] db1 evs show ?thesis
      by (simp add: conn_close_def)
  qed
qed

lemma log_audit_never_raises:
  "fst (log_audit srv db user_id field_name operation success error ip_address) = Inr ()"
  by (simp add: log_audit_def split: sum.splits prod.splits)

lemma log_audit_tables:
  "users (snd (log_audit srv db user_id field_name operation success error ip_address)) = users db
   \<and> encryption_metadata (snd (log_audit srv db user_id field_name operation success error ip_address))
       = encryption_metadata db"
  by (auto simp: log_audit_def get_db_connection_def execute_insert_audit_def conn_commit_def
      conn_close_def split: sum.splits prod.splits option.splits)

lemma audit_all_tables:
  "users (audit_all asrv db user_id names) = users db
   \<and> encryption_metadata (audit_all asrv db user_id names) = encryption_metadata db"
proof (induction names arbitrary: db)
  case Nil
  then show ?case by simp
next
  case (Cons f rest)
  obtain r d where la: "log_audit (asrv f) db user_id f ''encrypt'' True None None = (r, d)"
    by (cases "log_audit (asrv f) db user_id f ''encrypt'' True None None")
  with log_audit_tables [of "asrv f" db user_id f "''encrypt''" True None None]
  have d: "users d = users db \<and> encryption_metadata d = encryption_metadata db" by simp
  from la d Cons.IH [of d] show ?case by (cases r) simp_all
qed

lemma handle_create_user_operation_failure:
  assumes "handle_create_user_operation w event db = (Inl err, db2)"
  shows "db2 = db"
proof -
  let ?data = "case ev_data event of None \<Rightarrow> [] | Some d \<Rightarrow> d"
  show ?thesis
  proof (cases "?data = []")
    case True
    with assms show ?thesis by (simp add: handle_create_user_operation_def)
  next
    case ne: False
    show ?thesis
    proof (cases "encrypt_all (crypto w) ?data \<lparr> ed_fields = [], ed_metadata = [] \<rparr>")
      case (Inl e1)
      with assms ne show ?thesis by (simp add: handle_create_user_operation_def)
    next
      case (Inr enc)
      obtain r d evs where st: "store_encrypted_user (main_srv w) db enc = (r, d, evs)"
        by (cases "store_encrypted_user (main_srv w) db enc")
      show ?thesis
      proof (cases r)
        case (Inl e2)
        with st have "d = db" by (auto dest: store_encrypted_user_failure)
        with assms ne Inr st Inl show ?thesis
          by (simp add: handle_create_user_operation_def)
      next
        case (Inr uid)
        with assms ne \<open>encrypt_all (crypto w) ?data \<lparr> ed_fields = [], ed_metadata = [] \<rparr> = Inr enc\<close> st
        show ?thesis
          by (simp add: handle_create_user_operation_def Let_def)
      qed
    qed
  qed
qed

text \<open>
  C6. \<open>store_encrypted_user\<close> writes the user row and all metadata rows in one
  transaction. When it returns, the connection saw exactly one \<open>commit\<close> (then
  \<open>close\<close>), and the database is the old one with the user row and one metadata row
  per entry of the metadata dictionary appended. When it raises, at whatever step, the
  database is unchanged: either no connection was opened, or the transaction was rolled
  back and never committed. The create handler as a whole leaves the database unchanged
  whenever it raises.
\<close>

theorem store_encrypted_user_atomic:
  "(store_encrypted_user srv db data = (Inr user_id, db1, evs) \<longrightarrow>
      evs = [Commit, Close]
      \<and> db1 = db\<lparr> users := users db @
               [\<lparr> u_id = user_id,
                   u_columns = zip (fst (collect_insert (ed_fields data)))
                                   (snd (collect_insert (ed_fields data))) \<rparr>],
             encryption_metadata := encryption_metadata db @
               map (metadata_row_of user_id) (ed_metadata data) \<rparr>)
   \<and> (store_encrypted_user srv db data = (Inl err, db1, evs) \<longrightarrow>
        db1 = db \<and> (evs = [] \<or> evs = [Rollback, Close]))
   \<and> (handle_create_user_operation w event db = (Inl err, db2) \<longrightarrow> db2 = db)"
  using store_encrypted_user_success [of srv db data user_id db1 evs]
    store_encrypted_user_failure [of srv db data err db1 evs]
    handle_create_user_operation_failure [of w event db err db2]
  by blast

theorem store_encrypted_user_atomic_witness:
  "store_encrypted_user demo_server empty_db
     \<lparr> ed_fields = [(''email'', Some ''a@b.com''), (''ssn_encrypted'', Some ''Kk2123'')],
       ed_metadata = [(''ssn'', [(''level'', PInt 3), (''app_key_version'', PInt 2)])] \<rparr>
   = (Inr ''u1'',
      \<lparr> users = [\<lparr> u_id = ''u1'',
                   u_columns = [(''email'', Some ''a@b.com''), (''ssn_encrypted'', Some ''Kk2123'')] \<rparr>],
        encryption_metadata = [\<lparr> md_user_id = ''u1'', md_field_name = ''ssn'',
                   md_pii_level = PInt 3, md_app_key_version = PInt 2,
                   md_kms_key_alias = PNone, md_encryption_algorithm = PNone \<rparr>],
        encryption_audit = [] \<rparr>,
      [Commit, Close])
   \<and> store_encrypted_user metadata_rejecting_server empty_db
     \<lparr> ed_fields = [(''email'', Some ''a@b.com''), (''ssn_encrypted'', Some ''Kk2123'')],
       ed_metadata = [(''ssn'', [(''level'', PInt 3), (''app_key_version'', PInt 2)])] \<rparr>
   = (Inl (Exn ''IntegrityError'' ''check constraint''), empty_db, [Rollback, Close])
   \<and> handle_create_user_operation (demo_world\<lparr> main_srv := metadata_rejecting_server \<rparr>)
       (no_event\<lparr> ev_data := Some [(''email'', PStr ''a@b.com''), (''ssn'', PStr ''123'')] \<rparr>)
       empty_db
   = (Inl (Exn ''IntegrityError'' ''check constraint''), empty_db)"
proof -
  let ?data = "\<lparr> ed_fields = [(''email'', Some ''a@b.com''), (''ssn_encrypted'', Some ''Kk2123'')],
       ed_metadata = [(''ssn'', [(''level'', PInt 3), (''app_key_version'', PInt 2)])] \<rparr>"
  let ?w = "demo_world\<lparr> main_srv := metadata_rejecting_server \<rparr>"
  let ?ev = "no_event\<lparr> ev_data := Some [(''email'', PStr ''a@b.com''), (''ssn'', PStr ''123'')] \<rparr>"
  have ok: "fst (store_encrypted_user demo_server empty_db ?data) = Inr ''u1''"
    by code_simp
  have bad: "fst (store_encrypted_user metadata_rejecting_server empty_db ?data)
      = Inl (Exn ''IntegrityError'' ''check constraint'')"
    by code_simp
  have hbad: "fst (handle_create_user_operation ?w ?ev empty_db)
      = Inl (Exn ''IntegrityError'' ''check constraint'')"
    by code_simp
  obtain d1 e1 where s1: "store_encrypted_user demo_server empty_db ?data = (Inr ''u1'', d1, e1)"
    using ok by (cases "store_encrypted_user demo_server empty_db ?data") auto
  obtain d2 e2 where s2: "store_encrypted_user metadata_rejecting_server empty_db ?data
      = (Inl (Exn ''IntegrityError'' ''check constraint''), d2, e2)"
    using bad by (cases "store_encrypted_user metadata_rejecting_server empty_db ?data") auto
  obtain d3 where s3: "handle_create_user_operation ?w ?ev empty_db
      = (Inl (Exn ''IntegrityError'' ''check constraint''), d3)"
    using hbad by (cases "handle_create_user_operation ?w ?ev empty_db") auto
  have cols: "collect_insert [(''email'', Some ''a@b.com''), (''ssn_encrypted'', Some ''Kk2123'')]
      = ([''email'', ''ssn_encrypted''], [Some ''a@b.com'', Some ''Kk2123''])"
    by code_simp
  have evs2: "e2 = [Rollback, Close]"
    using s2 by (simp add: store_encrypted_user_def get_db_connection_def
        metadata_rejecting_server_def demo_server_def Let_def conn_close_def conn_rollback_def
        store_try_failure split: sum.splits prod.splits)
  from store_encrypted_user_atomic [of demo_server empty_db ?data "''u1''" d1 e1] s1
  have r1: "e1 = [Commit, Close]" "d1 = \<lparr> users = [\<lparr> u_id = ''u1'',
                   u_columns = [(''email'', Some ''a@b.com''), (''ssn_encrypted'', Some ''Kk2123'')] \<rparr>],
        encryption_metadata = [\<lparr> md_user_id = ''u1'', md_field_name = ''ssn'',
                   md_pii_level = PInt 3, md_app_key_version = PInt 2,
                   md_kms_key_alias = PNone, md_encryption_algorithm = PNone \<rparr>],
        encryption_audit = [] \<rparr>"
    by (simp_all add: cols empty_db_def metadata_row_of_def dict_get_def
        del: collect_insert.simps)
  from store_encrypted_user_atomic [where srv = metadata_rejecting_server and db = empty_db
      and data = ?data and err = "Exn ''IntegrityError'' ''check constraint''" and ?db1.0 = d2
      and evs = e2] s2
  have r2: "d2 = empty_db" by simp
  from store_encrypted_user_atomic [where w = ?w and event = ?ev and db = empty_db
      and err = "Exn ''IntegrityError'' ''check constraint''" and ?db2.0 = d3] s3
  have r3: "d3 = empty_db" by simp
  from s1 s2 s3 r1 r2 r3 evs2 show ?thesis by simp
qed

lemma collect_insert_zip:
  "zip (fst (collect_insert fs)) (snd (collect_insert fs)) =
     map (\<lambda>(f, v). (case map_of field_mapping f of Some c \<Rightarrow> c | None \<Rightarrow> f, v))
       (filter (\<lambda>(f, v). f \<in> set (map fst field_mapping) \<and> v \<noteq> None) fs)"
proof (induction fs)
  case Nil
  then show ?case by simp
next
  case (Cons entry rest)
  obtain f v where entry: "entry = (f, v)" by (cases entry)
  show ?case
  proof (cases "map_of field_mapping f")
    case None
    then have "f \<notin> set (map fst field_mapping)"
      by (simp add: map_of_eq_None_iff)
    with None Cons.IH entry show ?thesis by simp
  next
    case (Some c)
    then have "f \<in> set (map fst field_mapping)"
      by (metis map_of_eq_None_iff option.distinct(1) set_map)
    with Some Cons.IH entry show ?thesis by simp
  qed
qed

lemma collect_insert_columns:
  "set (fst (collect_insert fs)) \<subseteq> snd ` set field_mapping"
proof (induction fs)
  case Nil
  then show ?case by simp
next
  case (Cons entry rest)
  obtain f v where entry: "entry = (f, v)" by (cases entry)
  show ?case
  proof (cases "map_of field_mapping f")
    case None
    with Cons.IH entry show ?thesis by simp
  next
    case (Some c)
    then have "c \<in> snd ` set field_mapping"
      by (metis map_of_SomeD snd_conv image_eqI)
    with Some Cons.IH entry show ?thesis by auto
  qed
qed

lemma collect_insert_none:
  "\<forall>entry \<in> set fs. fst entry \<notin> set (map fst field_mapping) \<Longrightarrow> collect_insert fs = ([], [])"
proof (induction fs)
  case Nil
  then show ?case by simp
next
  case (Cons entry rest)
  obtain f v where entry: "entry = (f, v)" by (cases entry)
  with Cons.prems have "map_of field_mapping f = None"
    by (simp add: map_of_eq_None_iff)
  with Cons entry show ?case by simp
qed

lemma collect_insert_length:
  "length (fst (collect_insert fs)) = length (snd (collect_insert fs))"
  by (induction fs rule: collect_insert.induct) (auto split: option.splits)

lemma field_mapping_columns:
  "snd ` set field_mapping =
     set [''email'', ''first_name'', ''last_name'', ''phone'', ''address_encrypted'',
          ''dob_encrypted'', ''ssn_encrypted'', ''bank_account_encrypted'',
          ''credit_card_encrypted'']"
  by (simp add: field_mapping_def insert_commute)

text \<open>
  C10. \<open>store_encrypted_user\<close> keeps an input field only when its name is one of the ten
  keys of the static \<open>field_mapping\<close> (and its value is not \<open>None\<close>): the stored user
  row consists of exactly these fields, under the mapped column names, which lie in a
  fixed set of nine columns. Every other field of the input is dropped from the row
  without an error, whatever the classifier says about it. When no field of the input
  is a key of \<open>field_mapping\<close>, the function raises \<open>ValueError\<close> (message: No valid fields to
  insert) after rolling back, and no user is created.
\<close>

theorem store_encrypted_user_allowlist:
  "map fst field_mapping =
     [''email'', ''first_name'', ''last_name'', ''phone'', ''address_encrypted'',
      ''dob_encrypted'', ''date_of_birth_encrypted'', ''ssn_encrypted'',
      ''bank_account_encrypted'', ''credit_card_encrypted'']
   \<and> (store_encrypted_user srv db data = (Inr user_id, db1, evs) \<longrightarrow>
        (\<exists>row. users db1 = users db @ [row] \<and> u_id row = user_id
           \<and> u_columns row =
               map (\<lambda>(f, v). (case map_of field_mapping f of Some c \<Rightarrow> c | None \<Rightarrow> f, v))
                 (filter (\<lambda>(f, v). f \<in> set (map fst field_mapping) \<and> v \<noteq> None) (ed_fields data))
           \<and> u_columns row \<noteq> []
           \<and> set (map fst (u_columns row)) \<subseteq>
               set [''email'', ''first_name'', ''last_name'', ''phone'', ''address_encrypted'',
                    ''dob_encrypted'', ''ssn_encrypted'', ''bank_account_encrypted'',
                    ''credit_card_encrypted'']))
   \<and> (connect_fault srv = None
        \<and> (\<forall>entry \<in> set (ed_fields data). fst entry \<notin> set (map fst field_mapping))
      \<longrightarrow> store_encrypted_user srv db data =
            (Inl (Exn ''ValueError'' ''No valid fields to insert''), db, [Rollback, Close]))"
proof (intro conjI impI)
  show "map fst field_mapping =
     [''email'', ''first_name'', ''last_name'', ''phone'', ''address_encrypted'',
      ''dob_encrypted'', ''date_of_birth_encrypted'', ''ssn_encrypted'',
      ''bank_account_encrypted'', ''credit_card_encrypted'']"
    by (simp add: field_mapping_def)
next
  assume ok: "store_encrypted_user srv db data = (Inr user_id, db1, evs)"
  let ?cols = "fst (collect_insert (ed_fields data))"
  let ?vals = "snd (collect_insert (ed_fields data))"
  let ?row = "\<lparr> u_id = user_id, u_columns = zip ?cols ?vals \<rparr>"
  from store_encrypted_user_success [OF ok]
  have db1: "users db1 = users db @ [?row]" and ne: "?cols \<noteq> []"
    by simp_all
  have fst_zip: "map fst (zip ?cols ?vals) = ?cols"
    using collect_insert_length [of "ed_fields data"] by simp
  have sub: "set (map fst (u_columns ?row)) \<subseteq>
               set [''email'', ''first_name'', ''last_name'', ''phone'', ''address_encrypted'',
                    ''dob_encrypted'', ''ssn_encrypted'', ''bank_account_encrypted'',
                    ''credit_card_encrypted'']"
    using collect_insert_columns [of "ed_fields data"] fst_zip
    by (simp only: field_mapping_columns user_row.simps)
  have nonempty: "u_columns ?row \<noteq> []"
    using ne collect_insert_length [of "ed_fields data"] by (cases ?cols; cases ?vals) auto
  show "\<exists>row. users db1 = users db @ [row] \<and> u_id row = user_id
           \<and> u_columns row =
               map (\<lambda>(f, v). (case map_of field_mapping f of Some c \<Rightarrow> c | None \<Rightarrow> f, v))
                 (filter (\<lambda>(f, v). f \<in> set (map fst field_mapping) \<and> v \<noteq> None) (ed_fields data))
           \<and> u_columns row \<noteq> []
           \<and> set (map fst (u_columns row)) \<subseteq>
               set [''email'', ''first_name'', ''last_name'', ''phone'', ''address_encrypted'',
                    ''dob_encrypted'', ''ssn_encrypted'', ''bank_account_encrypted'',
                    ''credit_card_encrypted'']"
    using db1 sub nonempty collect_insert_zip [of "ed_fields data"]
    by (intro exI [of _ ?row]) simp
next
  assume a: "connect_fault srv = None
        \<and> (\<forall>entry \<in> set (ed_fields data). fst entry \<notin> set (map fst field_mapping))"
  then have "collect_insert (ed_fields data) = ([], [])"
    by (intro collect_insert_none) simp
  with a show "store_encrypted_user srv db data =
            (Inl (Exn ''ValueError'' ''No valid fields to insert''), db, [Rollback, Close])"
    by (simp add: store_encrypted_user_def get_db_connection_def store_try_def Let_def
        conn_close_def conn_rollback_def)
qed

theorem store_encrypted_user_allowlist_witness:
  "classify_pii_level ''city'' = 2
   \<and> (\<exists>enc. encrypt_all demo_env [(''email'', PStr ''a@b.com''), (''city'', PStr ''Paris'')]
               \<lparr> ed_fields = [], ed_metadata = [] \<rparr> = Inr enc
          \<and> ed_fields enc = [(''email'', Some ''a@b.com''), (''city_encrypted'', Some ''KParis'')]
          \<and> (\<exists>db1 evs. store_encrypted_user demo_server empty_db enc = (Inr ''u1'', db1, evs)
                \<and> users db1 = [\<lparr> u_id = ''u1'', u_columns = [(''email'', Some ''a@b.com'')] \<rparr>]))
   \<and> store_encrypted_user demo_server empty_db
        \<lparr> ed_fields = [(''city_encrypted'', Some ''KParis'')],
          ed_metadata = [(''city'', [(''level'', PInt 2)])] \<rparr>
      = (Inl (Exn ''ValueError'' ''No valid fields to insert''), empty_db, [Rollback, Close])"
proof -
  let ?enc = "\<lparr> ed_fields = [(''email'', Some ''a@b.com''), (''city_encrypted'', Some ''KParis'')],
      ed_metadata = [(''city'', [(''level'', PInt 2), (''method'', PStr ''kms_only''),
        (''app_key_version'', PNone), (''kms_key'', PStr ''alias/pii-level2'')])] \<rparr>"
  let ?bad = "\<lparr> ed_fields = [(''city_encrypted'', Some ''KParis'')],
          ed_metadata = [(''city'', [(''level'', PInt 2)])] \<rparr>"
  have lvl: "classify_pii_level ''city'' = 2"
    by code_simp
  have enc: "encrypt_all demo_env [(''email'', PStr ''a@b.com''), (''city'', PStr ''Paris'')]
               \<lparr> ed_fields = [], ed_metadata = [] \<rparr> = Inr ?enc"
    by code_simp
  have ok: "fst (store_encrypted_user demo_server empty_db ?enc) = Inr ''u1''"
    by code_simp
  then obtain db1 evs where st: "store_encrypted_user demo_server empty_db ?enc = (Inr ''u1'', db1, evs)"
    by (cases "store_encrypted_user demo_server empty_db ?enc") auto
  note inst = store_encrypted_user_allowlist [where srv = demo_server and db = empty_db]
  from inst [where data = ?enc and user_id = "''u1''" and ?db1.0 = db1 and evs = evs] st
  have users: "users db1 = [\<lparr> u_id = ''u1'', u_columns = [(''email'', Some ''a@b.com'')] \<rparr>]"
    by (auto simp: empty_db_def field_mapping_def)
  from inst [where data = ?bad]
  have bad: "store_encrypted_user demo_server empty_db ?bad
      = (Inl (Exn ''ValueError'' ''No valid fields to insert''), empty_db, [Rollback, Close])"
    by (simp add: demo_server_def field_mapping_def)
  from lvl enc st users bad show ?thesis by simp
qed

lemma classify_pii_level_range: "classify_pii_level f \<in> {1, 2, 3}"
  by (simp add: classify_pii_level_def Let_def PII_LEVEL_MAPPING_def)

lemma encrypt_field_success_level:
  assumes "snd (encrypt_field e f (Some s)) = Inr (Some r)"
  shows "res_level r = (if s = [] then 1 else classify_pii_level f)"
proof (cases "s = []")
  case True
  with assms show ?thesis by (auto simp: encrypt_field_def io_return_def)
next
  case False
  obtain cs where enc: "encrypt_field e f (Some s) = (cs, Inr (Some r))"
    using assms by (cases "encrypt_field e f (Some s)") auto
  from classify_pii_level_range [of f]
  consider "classify_pii_level f = 1" | "classify_pii_level f = 2" | "classify_pii_level f = 3"
    by auto
  then show ?thesis
  proof cases
    case 1
    with False enc show ?thesis by (auto simp: encrypt_field_def Let_def io_return_def)
  next
    case 2
    from encrypt_field_level2_result [OF 2 False enc] 2 False show ?thesis by metis
  next
    case 3
    from encrypt_field_level3_result [OF 3 False enc] 3 False show ?thesis by metis
  qed
qed

lemma field_metadata_of_level:
  "field_metadata_of r = Inr m \<Longrightarrow> dict_get m ''level'' = PInt (res_level r)"
  by (auto simp: field_metadata_of_def dict_get_def split: option.splits)

lemma update_fresh_key: "k \<notin> fst ` set xs \<Longrightarrow> AList.update k v xs = xs @ [(k, v)]"
  by (induction xs) auto

lemma encrypt_all_metadata:
  assumes "encrypt_all e data acc = Inr res"
    and "distinct (map fst data)"
    and "set (map fst data) \<inter> fst ` set (ed_metadata acc) = {}"
  shows "\<exists>new. ed_metadata res = ed_metadata acc @ new
     \<and> map (\<lambda>(f, m). (f, dict_get m ''level'')) new =
         map (\<lambda>(f, v). (f, PInt (classify_pii_level f)))
           (filter (\<lambda>(f, v). v \<noteq> PNone \<and> py_str v \<noteq> [] \<and> 2 \<le> classify_pii_level f) data)"
  using assms
proof (induction data arbitrary: acc)
  case Nil
  then show ?case by simp
next
  case (Cons entry rest)
  obtain f v where entry: "entry = (f, v)" by (cases entry)
  from Cons.prems entry have dist: "distinct (map fst rest)" and fresh: "f \<notin> set (map fst rest)"
    and f_acc: "f \<notin> fst ` set (ed_metadata acc)"
    and rest_acc: "set (map fst rest) \<inter> fst ` set (ed_metadata acc) = {}"
    by auto
  show ?case
  proof (cases "v = PNone")
    case True
    with Cons.prems entry have "encrypt_all e rest acc = Inr res" by simp
    from Cons.IH [OF this dist rest_acc] True entry show ?thesis by simp
  next
    case nn: False
    show ?thesis
    proof (cases "snd (encrypt_field e f (Some (py_str v)))")
      case (Inl err)
      with Cons.prems entry nn show ?thesis by simp
    next
      case (Inr ro)
      show ?thesis
      proof (cases ro)
        case None
        with Cons.prems entry nn Inr show ?thesis by simp
      next
        case (Some r)
        with Inr have lvl: "res_level r = (if py_str v = [] then 1 else classify_pii_level f)"
          by (intro encrypt_field_success_level) simp
        show ?thesis
        proof (cases "res_level r = 1")
          case True
          let ?acc = "acc\<lparr> ed_fields := AList.update f (res_value r) (ed_fields acc) \<rparr>"
          from Cons.prems entry nn Inr Some True have "encrypt_all e rest ?acc = Inr res"
            by simp
          from Cons.IH [OF this dist] rest_acc
          obtain new where new: "ed_metadata res = ed_metadata acc @ new"
            "map (\<lambda>(f, m). (f, dict_get m ''level'')) new =
               map (\<lambda>(f, v). (f, PInt (classify_pii_level f)))
                 (filter (\<lambda>(f, v). v \<noteq> PNone \<and> py_str v \<noteq> [] \<and> 2 \<le> classify_pii_level f) rest)"
            by auto
          from True lvl have "\<not> (py_str v \<noteq> [] \<and> 2 \<le> classify_pii_level f)"
            by (auto split: if_splits)
          with new entry show ?thesis by auto
        next
          case l: False
          show ?thesis
          proof (cases "field_metadata_of r")
            case (Inl err)
            with Cons.prems entry nn Inr Some l show ?thesis by simp
          next
            case m: (Inr m)
            let ?acc = "acc\<lparr> ed_fields :=
                 AList.update (f @ ''_encrypted'') (res_value r) (ed_fields acc),
                 ed_metadata := AList.update f m (ed_metadata acc) \<rparr>"
            have upd: "ed_metadata ?acc = ed_metadata acc @ [(f, m)]"
              using f_acc by (simp add: update_fresh_key)
            from Cons.prems entry nn Inr Some l m have "encrypt_all e rest ?acc = Inr res"
              by simp
            moreover have "set (map fst rest) \<inter> fst ` set (ed_metadata ?acc) = {}"
              using rest_acc fresh upd by auto
            ultimately obtain new where new: "ed_metadata res = ed_metadata ?acc @ new"
              "map (\<lambda>(f, m). (f, dict_get m ''level'')) new =
                 map (\<lambda>(f, v). (f, PInt (classify_pii_level f)))
                   (filter (\<lambda>(f, v). v \<noteq> PNone \<and> py_str v \<noteq> [] \<and> 2 \<le> classify_pii_level f) rest)"
              using Cons.IH [OF _ dist] by blast
            from l lvl classify_pii_level_range [of f]
            have keep: "py_str v \<noteq> [] \<and> 2 \<le> classify_pii_level f"
              and lv: "res_level r = classify_pii_level f"
              by (auto split: if_splits)
            from field_metadata_of_level [OF m] lv
            have "dict_get m ''level'' = PInt (classify_pii_level f)" by simp
            with new upd keep nn entry show ?thesis
              by (intro exI [of _ "(f, m) # new"]) simp
          qed
        qed
      qed
    qed
  qed
qed

lemma metadata_row_of_projection:
  "map (\<lambda>r. (md_user_id r, md_field_name r, md_pii_level r)) (map (metadata_row_of uid) ms) =
     map (\<lambda>(f, l). (uid, f, l)) (map (\<lambda>(f, m). (f, dict_get m ''level'')) ms)"
  by (induction ms) (auto simp: metadata_row_of_def)

lemma handle_create_user_operation_metadata:
  assumes ok: "handle_create_user_operation w event db = (Inr resp, db1)"
    and data: "ev_data event = Some data" and dist: "distinct (map fst data)"
  shows "\<exists>user_id rows. map_of (body resp) ''user_id'' = Some (JStr user_id)
     \<and> encryption_metadata db1 = encryption_metadata db @ rows
     \<and> map (\<lambda>r. (md_user_id r, md_field_name r, md_pii_level r)) rows =
         map (\<lambda>(f, v). (user_id, f, PInt (classify_pii_level f)))
           (filter (\<lambda>(f, v). v \<noteq> PNone \<and> py_str v \<noteq> [] \<and> 2 \<le> classify_pii_level f) data)"
proof -
  from ok data have ne: "data \<noteq> []"
    by (auto simp: handle_create_user_operation_def)
  obtain enc where enc: "encrypt_all (crypto w) data \<lparr> ed_fields = [], ed_metadata = [] \<rparr> = Inr enc"
    using ok data ne
    by (cases "encrypt_all (crypto w) data \<lparr> ed_fields = [], ed_metadata = [] \<rparr>")
       (auto simp: handle_create_user_operation_def)
  obtain r d evs where st: "store_encrypted_user (main_srv w) db enc = (r, d, evs)"
    by (cases "store_encrypted_user (main_srv w) db enc")
  from ok data ne enc st obtain uid where r: "r = Inr uid"
    by (cases r) (auto simp: handle_create_user_operation_def)
  from ok data ne enc st r have resp: "map_of (body resp) ''user_id'' = Some (JStr uid)"
    and db1: "db1 = audit_all (audit_srv w) d (PStr uid) (map fst data)"
    by (auto simp: handle_create_user_operation_def Let_def)
  from st r have d: "encryption_metadata d =
      encryption_metadata db @ map (metadata_row_of uid) (ed_metadata enc)"
    by (auto dest: store_encrypted_user_success)
  from encrypt_all_metadata [OF enc dist]
  obtain new where new: "ed_metadata enc = new"
    "map (\<lambda>(f, m). (f, dict_get m ''level'')) new =
         map (\<lambda>(f, v). (f, PInt (classify_pii_level f)))
           (filter (\<lambda>(f, v). v \<noteq> PNone \<and> py_str v \<noteq> [] \<and> 2 \<le> classify_pii_level f) data)"
    by auto
  have proj: "map (\<lambda>r. (md_user_id r, md_field_name r, md_pii_level r))
        (map (metadata_row_of uid) (ed_metadata enc)) =
      map (\<lambda>(f, v). (uid, f, PInt (classify_pii_level f)))
           (filter (\<lambda>(f, v). v \<noteq> PNone \<and> py_str v \<noteq> [] \<and> 2 \<le> classify_pii_level f) data)"
    unfolding metadata_row_of_projection new(1) new(2)
    by (simp add: case_prod_beta comp_def)
  from db1 d have "encryption_metadata db1 =
      encryption_metadata db @ map (metadata_row_of uid) (ed_metadata enc)"
    by (simp add: audit_all_tables)
  with resp proj show ?thesis by blast
qed

text \<open>The generated \<open>create_user\<close>.\<close>

lemma process_fields_records:
  "process_fields e user_data acc = Inr (ins, recs) \<Longrightarrow>
     map md_field_name recs =
       map md_field_name (snd acc) @ filter (\<lambda>f. f \<in> set (map fst FIELD_MAPPING)) (map fst user_data)"
proof (induction user_data arbitrary: acc)
  case Nil
  then show ?case by simp
next
  case (Cons entry rest)
  obtain f v where entry: "entry = (f, v)" by (cases entry)
  show ?case
  proof (cases "f \<in> fst ` set FIELD_MAPPING")
    case False
    with Cons.prems entry have "process_fields e rest acc = Inr (ins, recs)" by simp
    from Cons.IH [OF this] False entry show ?thesis by simp
  next
    case True
    let ?r = "snd (encrypt_field_generated e f (if v \<noteq> PNone then Some (py_str v) else None))"
    show ?thesis
    proof (cases ?r)
      case (Inl err)
      with Cons.prems entry True show ?thesis by simp
    next
      case (Inr ro)
      show ?thesis
      proof (cases ro)
        case None
        with Cons.prems entry True Inr show ?thesis by simp
      next
        case (Some r)
        with Cons.prems entry True Inr obtain acc' where
          step: "process_fields e rest acc' = Inr (ins, recs)"
          and acc': "map md_field_name (snd acc') = map md_field_name (snd acc) @ [f]"
          by (simp del: process_fields.simps add: process_fields.simps(2) [of e f v rest acc])
        from Cons.IH [OF step] acc' True entry show ?thesis by simp
      qed
    qed
  qed
qed

lemma insert_metadata_records_committed:
  "insert_metadata_records srv conn user_id recs = (r, conn1) \<Longrightarrow>
     committed conn1 = committed conn \<and> events conn1 = events conn
     \<and> users (pending conn1) = users (pending conn)"
proof (induction recs arbitrary: conn)
  case Nil
  then show ?case by simp
next
  case (Cons m rest)
  obtain r0 c0 where step: "execute_insert_metadata srv (m\<lparr> md_user_id := user_id \<rparr>) conn = (r0, c0)"
    by (cases "execute_insert_metadata srv (m\<lparr> md_user_id := user_id \<rparr>) conn")
  then have c0: "committed c0 = committed conn \<and> events c0 = events conn
      \<and> users (pending c0) = users (pending conn)"
    by (auto simp: execute_insert_metadata_def split: option.splits)
  show ?case
  proof (cases r0)
    case (Inl err)
    with Cons.prems step c0 show ?thesis by auto
  next
    case (Inr u)
    with Cons.prems step have "insert_metadata_records srv c0 user_id rest = (r, conn1)"
      by simp
    from Cons.IH [OF this] c0 show ?thesis by simp
  qed
qed

lemma insert_metadata_records_pending:
  "insert_metadata_records srv conn user_id recs = (Inr u, conn1) \<Longrightarrow>
     encryption_metadata (pending conn1) =
       encryption_metadata (pending conn) @ map (\<lambda>m. m\<lparr> md_user_id := user_id \<rparr>) recs"
proof (induction recs arbitrary: conn)
  case Nil
  then show ?case by simp
next
  case (Cons m rest)
  obtain r0 c0 where step: "execute_insert_metadata srv (m\<lparr> md_user_id := user_id \<rparr>) conn = (r0, c0)"
    by (cases "execute_insert_metadata srv (m\<lparr> md_user_id := user_id \<rparr>) conn")
  show ?case
  proof (cases r0)
    case (Inl err)
    with Cons.prems step show ?thesis by simp
  next
    case (Inr u0)
    with step have c0: "encryption_metadata (pending c0) =
        encryption_metadata (pending conn) @ [m\<lparr> md_user_id := user_id \<rparr>]"
      by (auto simp: execute_insert_metadata_def split: option.splits)
    from Inr Cons.prems step have "insert_metadata_records srv c0 user_id rest = (Inr u, conn1)"
      by simp
    from Cons.IH [OF this] c0 show ?thesis by simp
  qed
qed

lemma create_user_metadata:
  assumes ok: "create_user e srv db user_data = (Inr created, db2, evs)"
  shows "\<exists>rows. encryption_metadata db2 = encryption_metadata db @ rows
     \<and> map (\<lambda>r. (md_user_id r, md_field_name r)) rows =
         map (\<lambda>f. (cu_user_id created, f))
           (filter (\<lambda>f. f \<in> set (map fst FIELD_MAPPING)) (map fst user_data))"
proof -
  from ok have cf: "connect_fault srv = None"
    by (auto simp: create_user_def get_db_connection_def split: option.splits)
  let ?conn = "\<lparr> committed = db, pending = db, events = [] \<rparr>"
  obtain r c where tr: "create_user_try e srv ?conn user_data = (r, c)"
    by (cases "create_user_try e srv ?conn user_data")
  from ok cf tr have r: "r = Inr created" and db2: "db2 = committed (conn_close c)"
    by (cases r; auto simp: create_user_def get_db_connection_def Let_def)+
  obtain ins recs where pf: "process_fields e user_data ([], []) = Inr (ins, recs)"
    using tr r by (cases "process_fields e user_data ([], [])") (auto simp: create_user_try_def)
  let ?avail = "filter (\<lambda>f. f \<in> set users_table_columns) (map fst ins)"
  let ?fd = "filter (\<lambda>(k, v). k \<in> set ?avail) ins"
  from tr r pf have av: "?avail \<noteq> []"
    by (auto simp: create_user_try_def Let_def split: if_splits)
  obtain r1 c1 where s1: "execute_insert_user srv (map fst ?fd) (map snd ?fd) ?conn = (r1, c1)"
    by (cases "execute_insert_user srv (map fst ?fd) (map snd ?fd) ?conn")
  from tr r pf av s1 obtain uid where r1: "r1 = Inr uid"
    by (cases r1) (auto simp: create_user_try_def Let_def)
  obtain r2 c2 where s2: "insert_metadata_records srv c1 uid recs = (r2, c2)"
    by (cases "insert_metadata_records srv c1 uid recs")
  from tr r pf av s1 r1 s2 obtain u where r2: "r2 = Inr u"
    by (cases r2) (auto simp: create_user_try_def Let_def)
  from tr r pf av s1 r1 s2 r2 have fin: "cu_user_id created = uid"
    "c = c2\<lparr> committed := pending c2, events := events c2 @ [Commit] \<rparr>"
    by (auto simp: create_user_try_def Let_def conn_commit_def split: option.splits)
  from s1 r1 have c1: "encryption_metadata (pending c1) = encryption_metadata db"
    by (auto simp: execute_insert_user_def Let_def split: option.splits)
  from s2 r2 c1 have c2: "encryption_metadata (pending c2) =
      encryption_metadata db @ map (\<lambda>m. m\<lparr> md_user_id := uid \<rparr>) recs"
    by (simp add: insert_metadata_records_pending)
  from process_fields_records [OF pf]
  have names: "map md_field_name recs =
      filter (\<lambda>f. f \<in> set (map fst FIELD_MAPPING)) (map fst user_data)"
    by simp
  have "map (\<lambda>r. (md_user_id r, md_field_name r)) (map (\<lambda>m. m\<lparr> md_user_id := uid \<rparr>) recs)
      = map (\<lambda>f. (uid, f)) (map md_field_name recs)"
    by (simp add: comp_def)
  with names db2 fin c2 show ?thesis
    by (intro exI [of _ "map (\<lambda>m. m\<lparr> md_user_id := uid \<rparr>) recs"])
       (simp add: conn_close_def)
qed

text \<open>
  C4 (as amended). After a successful create through the package's handler
  (\<open>handle_create_user_operation\<close> with \<open>store_encrypted_user\<close>) on input fields
  with distinct names, the metadata rows added for the new user are, in input order,
  exactly one row per field whose recorded level is 2 or 3 (a value that is not \<open>None\<close>
  and not empty, under a name classified at level 2 or 3), each recording that level;
  no row is added for a field recorded at level 1. The generated \<open>create_user\<close>
  instead adds one metadata row for every input field that is a key of
  \<open>FIELD_MAPPING\<close>, whatever its level.
\<close>

theorem create_metadata_rows:
  "(handle_create_user_operation w event db = (Inr resp, db1) \<and> ev_data event = Some data
      \<and> distinct (map fst data)
    \<longrightarrow> (\<exists>user_id rows. map_of (body resp) ''user_id'' = Some (JStr user_id)
          \<and> encryption_metadata db1 = encryption_metadata db @ rows
          \<and> map (\<lambda>r. (md_user_id r, md_field_name r, md_pii_level r)) rows =
              map (\<lambda>(f, v). (user_id, f, PInt (classify_pii_level f)))
                (filter (\<lambda>(f, v). v \<noteq> PNone \<and> py_str v \<noteq> [] \<and> 2 \<le> classify_pii_level f) data)))
   \<and> (create_user e srv db user_data = (Inr created, db2, evs)
    \<longrightarrow> (\<exists>rows. encryption_metadata db2 = encryption_metadata db @ rows
          \<and> map (\<lambda>r. (md_user_id r, md_field_name r)) rows =
              map (\<lambda>f. (cu_user_id created, f))
                (filter (\<lambda>f. f \<in> set (map fst FIELD_MAPPING)) (map fst user_data))))"
  using handle_create_user_operation_metadata [of w event db resp db1 data]
    create_user_metadata [of e srv db user_data created db2 evs]
  by blast

theorem create_metadata_rows_witness:
  "(\<exists>db1. handle_create_user_operation demo_world
       (no_event\<lparr> ev_data := Some [(''email'', PStr ''a@b.com''), (''ssn'', PStr ''123''),
                                   (''address'', PStr [])] \<rparr>) empty_db
       = (Inr \<lparr> statusCode = 200,
               body = [(''user_id'', JStr ''u1''), (''success'', JBool True),
                       (''processed_fields'', JInt 3),
                       (''message'', JStr ''User created and encrypted successfully'')] \<rparr>, db1)
      \<and> map (\<lambda>r. (md_user_id r, md_field_name r, md_pii_level r)) (encryption_metadata db1)
          = [(''u1'', ''ssn'', PInt 3)])
   \<and> (\<exists>db2. create_user demo_env demo_server empty_db
         [(''email'', PStr ''a@b.com''), (''ssn'', PStr ''123''), (''address'', PStr [])]
       = (Inr \<lparr> cu_user_id = ''u1'', cu_fields_processed = [''email'', ''ssn'', ''address''] \<rparr>,
          db2, [Commit, Close])
      \<and> map (\<lambda>r. (md_user_id r, md_field_name r)) (encryption_metadata db2)
          = [(''u1'', ''email''), (''u1'', ''ssn''), (''u1'', ''address'')])"
proof -
  let ?data = "[(''email'', PStr ''a@b.com''), (''ssn'', PStr ''123''), (''address'', PStr [])]"
  let ?ev = "no_event\<lparr> ev_data := Some ?data \<rparr>"
  let ?resp = "\<lparr> statusCode = 200,
               body = [(''user_id'', JStr ''u1''), (''success'', JBool True),
                       (''processed_fields'', JInt 3),
                       (''message'', JStr ''User created and encrypted successfully'')] \<rparr>"
  let ?created = "\<lparr> cu_user_id = ''u1'', cu_fields_processed = [''email'', ''ssn'', ''address''] \<rparr>"
  have l1: "classify_pii_level ''email'' = 1" by code_simp
  have l2: "classify_pii_level ''address'' = 2" by code_simp
  have l3: "classify_pii_level ''ssn'' = 3" by code_simp
  have h: "fst (handle_create_user_operation demo_world ?ev empty_db) = Inr ?resp"
    by code_simp
  then obtain db1 where h1: "handle_create_user_operation demo_world ?ev empty_db = (Inr ?resp, db1)"
    by (cases "handle_create_user_operation demo_world ?ev empty_db") auto
  have g: "fst (create_user demo_env demo_server empty_db ?data) = Inr ?created"
    by code_simp
  have g': "snd (snd (create_user demo_env demo_server empty_db ?data)) = [Commit, Close]"
    by code_simp
  from g g' obtain db2 where g1: "create_user demo_env demo_server empty_db ?data
      = (Inr ?created, db2, [Commit, Close])"
    by (cases "create_user demo_env demo_server empty_db ?data") auto
  have d: "ev_data ?ev = Some ?data" by (simp add: no_event_def)
  have dist: "distinct (map fst ?data)" by simp
  have flt: "filter (\<lambda>(f, v). v \<noteq> PNone \<and> py_str v \<noteq> [] \<and> 2 \<le> classify_pii_level f) ?data
      = [(''ssn'', PStr ''123'')]"
    by (simp add: l1 l2 l3)
  have flt2: "filter (\<lambda>f. f \<in> set (map fst FIELD_MAPPING)) (map fst ?data)
      = [''email'', ''ssn'', ''address'']"
    by (simp add: FIELD_MAPPING_def)
  note both = create_metadata_rows [where w = demo_world and event = ?ev and db = empty_db
      and resp = ?resp and ?db1.0 = db1 and data = ?data and e = demo_env and srv = demo_server
      and user_data = ?data and created = ?created and ?db2.0 = db2 and evs = "[Commit, Close]"]
  from both [THEN conjunct1, rule_format, OF conjI [OF h1 conjI [OF d dist]]]
  obtain user_id rows where r: "map_of (body ?resp) ''user_id'' = Some (JStr user_id)"
    "encryption_metadata db1 = encryption_metadata empty_db @ rows"
    "map (\<lambda>r. (md_user_id r, md_field_name r, md_pii_level r)) rows =
              map (\<lambda>(f, v). (user_id, f, PInt (classify_pii_level f)))
                (filter (\<lambda>(f, v). v \<noteq> PNone \<and> py_str v \<noteq> [] \<and> 2 \<le> classify_pii_level f) ?data)"
    by (elim exE conjE)
  from r(1) have uid: "user_id = ''u1''" by simp
  from r(2) have "encryption_metadata db1 = rows" by (simp add: empty_db_def)
  with r(3) uid have a: "map (\<lambda>r. (md_user_id r, md_field_name r, md_pii_level r))
      (encryption_metadata db1) = [(''u1'', ''ssn'', PInt 3)]"
    unfolding flt by (simp add: l3)
  from both [THEN conjunct2, rule_format, OF g1]
  obtain rows2 where r2: "encryption_metadata db2 = encryption_metadata empty_db @ rows2"
    "map (\<lambda>r. (md_user_id r, md_field_name r)) rows2 =
              map (\<lambda>f. (cu_user_id ?created, f))
                (filter (\<lambda>f. f \<in> set (map fst FIELD_MAPPING)) (map fst ?data))"
    by (elim exE conjE)
  from r2(1) have "encryption_metadata db2 = rows2" by (simp add: empty_db_def)
  with r2(2) have b: "map (\<lambda>r. (md_user_id r, md_field_name r)) (encryption_metadata db2)
          = [(''u1'', ''email''), (''u1'', ''ssn''), (''u1'', ''address'')]"
    unfolding flt2 by simp
  have A: "\<exists>db1. handle_create_user_operation demo_world ?ev empty_db = (Inr ?resp, db1)
      \<and> map (\<lambda>r. (md_user_id r, md_field_name r, md_pii_level r)) (encryption_metadata db1)
          = [(''u1'', ''ssn'', PInt 3)]"
    using h1 a by (intro exI [of _ db1] conjI)
  have B: "\<exists>db2. create_user demo_env demo_server empty_db ?data = (Inr ?created, db2, [Commit, Close])
      \<and> map (\<lambda>r. (md_user_id r, md_field_name r)) (encryption_metadata db2)
          = [(''u1'', ''email''), (''u1'', ''ssn''), (''u1'', ''address'')]"
    using g1 b by (intro exI [of _ db2] conjI)
  from A B show ?thesis by (rule conjI)
qed

text \<open>
  The claim as stated, for every create of the repository, fails on the generated
  \<open>create_user\<close>: creating a user from the single level-1 field \<open>email\<close> writes a
  metadata row for it, with level 1.
\<close>

theorem generated_create_writes_level1_metadata:
  "classify_pii_level_generated ''email'' = 1
   \<and> create_user demo_env demo_server empty_db [(''email'', PStr ''a@b.com'')]
     = (Inr \<lparr> cu_user_id = ''u1'', cu_fields_processed = [''email''] \<rparr>,
        \<lparr> users = [\<lparr> u_id = ''u1'', u_columns = [(''email'', Some ''a@b.com'')] \<rparr>],
          encryption_metadata =
            [\<lparr> md_user_id = ''u1'', md_field_name = ''email'', md_pii_level = PInt 1,
                md_app_key_version = PNone, md_kms_key_alias = PNone,
                md_encryption_algorithm = PStr ''rds_only'' \<rparr>],
          encryption_audit = [] \<rparr>,
        [Commit, Close])"
  by code_simp

section \<open>Properties of the audit logger and the dispatcher\<close>

lemma decrypt_all_result:
  "fst (decrypt_all w user_id metadata cols db acc) = decrypt_event_fields (crypto w) metadata cols acc"
proof (induction cols arbitrary: db acc)
  case Nil
  then show ?case by simp
next
  case (Cons entry rest)
  obtain f v where entry: "entry = (f, v)" by (cases entry)
  show ?case
  proof (cases "v = None")
    case True
    with Cons.IH entry show ?thesis by simp
  next
    case False
    then obtain c where nn: "v = Some c" by auto
    show ?thesis
    proof (cases "endswith f ''_encrypted''")
      case False
      with nn Cons.IH entry show ?thesis by simp
    next
      case True
      let ?o = "original_field_of f"
      let ?m = "case map_of metadata ?o of None \<Rightarrow> [] | Some m \<Rightarrow> m"
      show ?thesis
      proof (cases "snd (decrypt_field (crypto w) ?o v (Some ?m))")
        case (Inl err)
        with nn True entry show ?thesis by (simp add: Let_def)
      next
        case (Inr d)
        obtain r db1 where la: "log_audit (audit_srv w ?o) db user_id ?o ''decrypt'' True None None = (r, db1)"
          by (cases "log_audit (audit_srv w ?o) db user_id ?o ''decrypt'' True None None")
        from Inr nn True entry la Cons.IH [of db1 "AList.update ?o d acc"] show ?thesis
          by (cases r) (simp_all add: Let_def)
      qed
    qed
  qed
qed

lemma audit_all_users_metadata:
  "users (audit_all asrv db user_id names) = users db"
  "encryption_metadata (audit_all asrv db user_id names) = encryption_metadata db"
  using audit_all_tables [of asrv db user_id names] by simp_all

lemma handle_create_user_operation_audit_independent:
  "fst (handle_create_user_operation (w\<lparr> audit_srv := a1 \<rparr>) event db)
     = fst (handle_create_user_operation (w\<lparr> audit_srv := a2 \<rparr>) event db)
   \<and> users (snd (handle_create_user_operation (w\<lparr> audit_srv := a1 \<rparr>) event db))
     = users (snd (handle_create_user_operation (w\<lparr> audit_srv := a2 \<rparr>) event db))
   \<and> encryption_metadata (snd (handle_create_user_operation (w\<lparr> audit_srv := a1 \<rparr>) event db))
     = encryption_metadata (snd (handle_create_user_operation (w\<lparr> audit_srv := a2 \<rparr>) event db))"
  by (simp add: handle_create_user_operation_def Let_def audit_all_users_metadata
      split: sum.splits prod.splits)

lemma handle_get_user_operation_audit_independent:
  "fst (handle_get_user_operation (w\<lparr> audit_srv := a1 \<rparr>) event db)
     = fst (handle_get_user_operation (w\<lparr> audit_srv := a2 \<rparr>) event db)"
proof -
  have eq: "\<And>u md cols. fst (decrypt_all (w\<lparr> audit_srv := a1 \<rparr>) u md cols db [])
      = fst (decrypt_all (w\<lparr> audit_srv := a2 \<rparr>) u md cols db [])"
    by (simp add: decrypt_all_result)
  show ?thesis
  proof (cases "retrieve_encrypted_user (main_srv w) db
      (case ev_user_id event of None \<Rightarrow> PNone | Some u \<Rightarrow> u)")
    case (Inl err)
    then show ?thesis by (simp add: handle_get_user_operation_def Let_def)
  next
    case (Inr p)
    obtain cols md where p: "p = (cols, md)" by (cases p)
    let ?u = "case ev_user_id event of None \<Rightarrow> PNone | Some u \<Rightarrow> u"
    obtain r1 d1 where x1: "decrypt_all (w\<lparr> audit_srv := a1 \<rparr>) ?u md cols db [] = (r1, d1)"
      by (cases "decrypt_all (w\<lparr> audit_srv := a1 \<rparr>) ?u md cols db []")
    obtain r2 d2 where x2: "decrypt_all (w\<lparr> audit_srv := a2 \<rparr>) ?u md cols db [] = (r2, d2)"
      by (cases "decrypt_all (w\<lparr> audit_srv := a2 \<rparr>) ?u md cols db []")
    from eq [of ?u md cols] x1 x2 have "r1 = r2" by simp
    with Inr p x1 x2 show ?thesis
      by (cases r2) (simp_all add: handle_get_user_operation_def Let_def)
  qed
qed

text \<open>
  C8. Whatever the database server does during an audit write (refusing the connection,
  rejecting the insert, failing the commit), \<open>log_audit\<close> returns normally: nothing
  reaches its caller. Hence the result of the create handler and of the get handler,
  and the user and metadata tables after a create, are the same for any two behaviours
  of the server during the audit writes; only the audit table can differ.
\<close>

theorem audit_failure_never_surfaces:
  "fst (log_audit srv db user_id field_name operation success error ip_address) = Inr ()
   \<and> fst (handle_create_user_operation (w\<lparr> audit_srv := a1 \<rparr>) event db)
     = fst (handle_create_user_operation (w\<lparr> audit_srv := a2 \<rparr>) event db)
   \<and> users (snd (handle_create_user_operation (w\<lparr> audit_srv := a1 \<rparr>) event db))
     = users (snd (handle_create_user_operation (w\<lparr> audit_srv := a2 \<rparr>) event db))
   \<and> encryption_metadata (snd (handle_create_user_operation (w\<lparr> audit_srv := a1 \<rparr>) event db))
     = encryption_metadata (snd (handle_create_user_operation (w\<lparr> audit_srv := a2 \<rparr>) event db))
   \<and> fst (handle_get_user_operation (w\<lparr> audit_srv := a1 \<rparr>) event db)
     = fst (handle_get_user_operation (w\<lparr> audit_srv := a2 \<rparr>) event db)"
  using log_audit_never_raises [of srv db user_id field_name operation success error ip_address]
    handle_create_user_operation_audit_independent [where w = w and ?a1.0 = a1 and ?a2.0 = a2
      and event = event and db = db]
    handle_get_user_operation_audit_independent [where w = w and ?a1.0 = a1 and ?a2.0 = a2
      and event = event and db = db]
  by simp

theorem audit_failure_never_surfaces_witness:
  "fst (handle_create_user_operation (demo_world\<lparr> audit_srv := (\<lambda>field_name. down_server) \<rparr>)
          (no_event\<lparr> ev_data := Some [(''email'', PStr ''a@b.com''), (''ssn'', PStr ''123'')] \<rparr>)
          empty_db)
     = Inr \<lparr> statusCode = 200,
             body = [(''user_id'', JStr ''u1''), (''success'', JBool True),
                     (''processed_fields'', JInt 2),
                     (''message'', JStr ''User created and encrypted successfully'')] \<rparr>
   \<and> encryption_audit (snd (handle_create_user_operation
          (demo_world\<lparr> audit_srv := (\<lambda>field_name. down_server) \<rparr>)
          (no_event\<lparr> ev_data := Some [(''email'', PStr ''a@b.com''), (''ssn'', PStr ''123'')] \<rparr>)
          empty_db)) = []
   \<and> length (encryption_audit (snd (handle_create_user_operation demo_world
          (no_event\<lparr> ev_data := Some [(''email'', PStr ''a@b.com''), (''ssn'', PStr ''123'')] \<rparr>)
          empty_db))) = 2"
proof -
  let ?ev = "no_event\<lparr> ev_data := Some [(''email'', PStr ''a@b.com''), (''ssn'', PStr ''123'')] \<rparr>"
  let ?down = "demo_world\<lparr> audit_srv := (\<lambda>field_name. down_server) \<rparr>"
  have same: "demo_world\<lparr> audit_srv := (\<lambda>field_name. demo_server) \<rparr> = demo_world"
    by (simp add: demo_world_def)
  have ok: "fst (handle_create_user_operation demo_world ?ev empty_db)
     = Inr \<lparr> statusCode = 200,
             body = [(''user_id'', JStr ''u1''), (''success'', JBool True),
                     (''processed_fields'', JInt 2),
                     (''message'', JStr ''User created and encrypted successfully'')] \<rparr>"
    by code_simp
  have none: "encryption_audit (snd (handle_create_user_operation ?down ?ev empty_db)) = []"
    by code_simp
  have two: "length (encryption_audit (snd (handle_create_user_operation demo_world ?ev empty_db))) = 2"
    by code_simp
  note inst = audit_failure_never_surfaces [where w = demo_world
      and ?a1.0 = "\<lambda>field_name. down_server" and ?a2.0 = "\<lambda>field_name. demo_server"
      and event = ?ev and db = empty_db, THEN conjunct2, THEN conjunct1]
  have "fst (handle_create_user_operation ?down ?ev empty_db)
      = fst (handle_create_user_operation demo_world ?ev empty_db)"
    using inst by (simp only: same)
  with ok none two show ?thesis by simp
qed

lemma dispatch_unknown_operation:
  assumes "handler_fault w = None" and "ev_operation event = Some operation"
    and "truthy operation"
    and "operation \<notin> PStr ` set [''create_user'', ''get_user'', ''encrypt'', ''decrypt'',
           ''health'', ''list_users'', ''delete_user'', ''audit_trail'']"
  shows "dispatch w event db =
     (Inl (Exn ''ValueError'' (''Unknown operation: '' @ py_str operation)), db)"
  using assms by (simp add: dispatch_def Let_def)

lemma dispatch_missing_operation:
  assumes "handler_fault w = None"
    and "\<not> truthy (case ev_operation event of None \<Rightarrow> PNone | Some v \<Rightarrow> v)"
  shows "dispatch w event db = (Inl (Exn ''ValueError'' ''Missing 'operation' in event''), db)"
  using assms by (simp add: dispatch_def Let_def)

lemma dispatch_generated_unknown_operation:
  assumes "handler_fault_generated g = None" and "ev_operation event = Some operation"
    and "truthy operation"
    and "operation \<notin> PStr ` set [''health'', ''create_user'', ''get_user'', ''list_users'',
           ''audit_trail'']"
  shows "dispatch_generated g event db =
     (Inr \<lparr> statusCode = 400,
            body = [(''error'', JStr (''Unknown operation: '' @ py_str operation)),
                    (''supported_operations'',
                       JArr [JStr ''health'', JStr ''create_user'', JStr ''get_user'',
                             JStr ''list_users'', JStr ''audit_trail'']),
                    (''success'', JBool False)] \<rparr>, db)"
  using assms by (simp add: dispatch_generated_def Let_def)

lemma dispatch_generated_missing_operation:
  assumes "handler_fault_generated g = None"
    and "\<not> truthy (case ev_operation event of None \<Rightarrow> PNone | Some v \<Rightarrow> v)"
  shows "dispatch_generated g event db =
     (Inl (Exn ''ValueError'' ''Missing 'operation' in event''), db)"
  using assms by (simp add: dispatch_generated_def Let_def)

text \<open>
  C7 (as amended). The two modules answer a tag that is not a known operation
  differently.

  \<^item> The package's \<open>lambda_handler\<close>, once the handler objects are built: a truthy tag
    that is none of \<open>create_user\<close>, \<open>get_user\<close>, \<open>encrypt\<close>, \<open>decrypt\<close>, \<open>health\<close>,
    \<open>list_users\<close>, \<open>delete_user\<close>, \<open>audit_trail\<close> gives the server-error envelope with
    status 500, type \<open>ValueError\<close>, message \<open>Unknown operation: <tag>\<close> and
    \<open>success = False\<close>; a missing or falsy tag (\<open>None\<close>, the empty string, \<open>0\<close>) gives
    the same envelope with the message \<open>Missing 'operation' in event\<close>.
  \<^item> The generated \<open>lambda_handler\<close>, once the handler objects are built: a truthy tag
    that is none of \<open>health\<close>, \<open>create_user\<close>, \<open>get_user\<close>, \<open>list_users\<close>,
    \<open>audit_trail\<close> gives the client-error envelope with status 400, the message
    \<open>Unknown operation: <tag>\<close>, the list of supported operations and
    \<open>success = False\<close>; a missing or falsy tag gives status 500, type \<open>ValueError\<close> and
    the message \<open>Missing 'operation' in event\<close>.
  \<^item> In both modules every exception that the body of the \<open>try\<close> block raises is turned
    into the envelope with status 500 whose body carries the exception's message, its
    type name and \<open>success = False\<close>.

  In the first two cases the database is untouched.
\<close>

theorem lambda_handler_error_envelopes:
  "(handler_fault w = None \<and> ev_operation event = Some operation \<and> truthy operation
      \<and> operation \<notin> PStr ` set [''create_user'', ''get_user'', ''encrypt'', ''decrypt'',
           ''health'', ''list_users'', ''delete_user'', ''audit_trail'']
    \<longrightarrow> lambda_handler w event db =
          (\<lparr> statusCode = 500,
             body = [(''error'', JStr (''Unknown operation: '' @ py_str operation)),
                     (''type'', JStr ''ValueError''),
                     (''success'', JBool False)] \<rparr>, db))
   \<and> (handler_fault w = None
      \<and> \<not> truthy (case ev_operation event of None \<Rightarrow> PNone | Some v \<Rightarrow> v)
    \<longrightarrow> lambda_handler w event db =
          (\<lparr> statusCode = 500,
             body = [(''error'', JStr ''Missing 'operation' in event''),
                     (''type'', JStr ''ValueError''),
                     (''success'', JBool False)] \<rparr>, db))
   \<and> (dispatch w event db = (Inl err, db1)
    \<longrightarrow> lambda_handler w event db =
          (\<lparr> statusCode = 500,
             body = [(''error'', JStr (exn_msg err)),
                     (''type'', JStr (exn_type err)),
                     (''success'', JBool False)] \<rparr>, db1))
   \<and> (handler_fault_generated g = None \<and> ev_operation event = Some operation
      \<and> truthy operation
      \<and> operation \<notin> PStr ` set [''health'', ''create_user'', ''get_user'', ''list_users'',
           ''audit_trail'']
    \<longrightarrow> lambda_handler_generated g event db =
          (\<lparr> statusCode = 400,
             body = [(''error'', JStr (''Unknown operation: '' @ py_str operation)),
                     (''supported_operations'',
                        JArr [JStr ''health'', JStr ''create_user'', JStr ''get_user'',
                              JStr ''list_users'', JStr ''audit_trail'']),
                     (''success'', JBool False)] \<rparr>, db))
   \<and> (handler_fault_generated g = None
      \<and> \<not> truthy (case ev_operation event of None \<Rightarrow> PNone | Some v \<Rightarrow> v)
    \<longrightarrow> lambda_handler_generated g event db =
          (\<lparr> statusCode = 500,
             body = [(''error'', JStr ''Missing 'operation' in event''),
                     (''type'', JStr ''ValueError''),
                     (''success'', JBool False)] \<rparr>, db))
   \<and> (dispatch_generated g event db = (Inl err, db1)
    \<longrightarrow> lambda_handler_generated g event db =
          (\<lparr> statusCode = 500,
             body = [(''error'', JStr (exn_msg err)),
                     (''type'', JStr (exn_type err)),
                     (''success'', JBool False)] \<rparr>, db1))"
proof (intro conjI impI)
  assume "handler_fault w = None \<and> ev_operation event = Some operation \<and> truthy operation
      \<and> operation \<notin> PStr ` set [''create_user'', ''get_user'', ''encrypt'', ''decrypt'',
           ''health'', ''list_users'', ''delete_user'', ''audit_trail'']"
  then have "dispatch w event db =
     (Inl (Exn ''ValueError'' (''Unknown operation: '' @ py_str operation)), db)"
    by (elim conjE) (rule dispatch_unknown_operation; assumption)
  then show "lambda_handler w event db =
          (\<lparr> statusCode = 500,
             body = [(''error'', JStr (''Unknown operation: '' @ py_str operation)),
                     (''type'', JStr ''ValueError''),
                     (''success'', JBool False)] \<rparr>, db)"
    by (simp add: lambda_handler_def error_envelope_def)
next
  assume "handler_fault w = None
      \<and> \<not> truthy (case ev_operation event of None \<Rightarrow> PNone | Some v \<Rightarrow> v)"
  then have "dispatch w event db =
     (Inl (Exn ''ValueError'' ''Missing 'operation' in event''), db)"
    by (elim conjE) (rule dispatch_missing_operation; assumption)
  then show "lambda_handler w event db =
          (\<lparr> statusCode = 500,
             body = [(''error'', JStr ''Missing 'operation' in event''),
                     (''type'', JStr ''ValueError''),
                     (''success'', JBool False)] \<rparr>, db)"
    by (simp add: lambda_handler_def error_envelope_def)
next
  assume "dispatch w event db = (Inl err, db1)"
  then show "lambda_handler w event db =
          (\<lparr> statusCode = 500,
             body = [(''error'', JStr (exn_msg err)),
                     (''type'', JStr (exn_type err)),
                     (''success'', JBool False)] \<rparr>, db1)"
    by (simp add: lambda_handler_def error_envelope_def)
next
  assume "handler_fault_generated g = None \<and> ev_operation event = Some operation
      \<and> truthy operation
      \<and> operation \<notin> PStr ` set [''health'', ''create_user'', ''get_user'', ''list_users'',
           ''audit_trail'']"
  then have "dispatch_generated g event db =
     (Inr \<lparr> statusCode = 400,
            body = [(''error'', JStr (''Unknown operation: '' @ py_str operation)),
                    (''supported_operations'',
                       JArr [JStr ''health'', JStr ''create_user'', JStr ''get_user'',
                             JStr ''list_users'', JStr ''audit_trail'']),
                    (''success'', JBool False)] \<rparr>, db)"
    by (elim conjE) (rule dispatch_generated_unknown_operation; assumption)
  then show "lambda_handler_generated g event db =
          (\<lparr> statusCode = 400,
             body = [(''error'', JStr (''Unknown operation: '' @ py_str operation)),
                     (''supported_operations'',
                        JArr [JStr ''health'', JStr ''create_user'', JStr ''get_user'',
                              JStr ''list_users'', JStr ''audit_trail'']),
                     (''success'', JBool False)] \<rparr>, db)"
    by (simp add: lambda_handler_generated_def)
next
  assume "handler_fault_generated g = None
      \<and> \<not> truthy (case ev_operation event of None \<Rightarrow> PNone | Some v \<Rightarrow> v)"
  then have "dispatch_generated g event db =
     (Inl (Exn ''ValueError'' ''Missing 'operation' in event''), db)"
    by (elim conjE) (rule dispatch_generated_missing_operation; assumption)
  then show "lambda_handler_generated g event db =
          (\<lparr> statusCode = 500,
             body = [(''error'', JStr ''Missing 'operation' in event''),
                     (''type'', JStr ''ValueError''),
                     (''success'', JBool False)] \<rparr>, db)"
    by (simp add: lambda_handler_generated_def error_envelope_def)
next
  assume "dispatch_generated g event db = (Inl err, db1)"
  then show "lambda_handler_generated g event db =
          (\<lparr> statusCode = 500,
             body = [(''error'', JStr (exn_msg err)),
                     (''type'', JStr (exn_type err)),
                     (''success'', JBool False)] \<rparr>, db1)"
    by (simp add: lambda_handler_generated_def error_envelope_def)
qed

theorem lambda_handler_error_envelopes_witness:
  "lambda_handler demo_world (no_event\<lparr> ev_operation := Some (PStr ''invalid_operation'') \<rparr>) empty_db
     = (\<lparr> statusCode = 500,
          body = [(''error'', JStr ''Unknown operation: invalid_operation''),
                  (''type'', JStr ''ValueError''),
                  (''success'', JBool False)] \<rparr>, empty_db)
   \<and> lambda_handler demo_world (no_event\<lparr> ev_operation := Some (PStr []) \<rparr>) empty_db
     = (\<lparr> statusCode = 500,
          body = [(''error'', JStr ''Missing 'operation' in event''),
                  (''type'', JStr ''ValueError''),
                  (''success'', JBool False)] \<rparr>, empty_db)
   \<and> dispatch (demo_world\<lparr> handler_fault := Some (Exn ''ClientError'' ''AccessDenied'') \<rparr>)
        no_event empty_db
     = (Inl (Exn ''ClientError'' ''AccessDenied''), empty_db)
   \<and> lambda_handler (demo_world\<lparr> handler_fault := Some (Exn ''ClientError'' ''AccessDenied'') \<rparr>)
        no_event empty_db
     = (\<lparr> statusCode = 500,
          body = [(''error'', JStr ''AccessDenied''),
                  (''type'', JStr ''ClientError''),
                  (''success'', JBool False)] \<rparr>, empty_db)
   \<and> lambda_handler_generated demo_world_generated
        (no_event\<lparr> ev_operation := Some (PStr ''invalid_operation'') \<rparr>) empty_db
     = (\<lparr> statusCode = 400,
          body = [(''error'', JStr ''Unknown operation: invalid_operation''),
                  (''supported_operations'',
                     JArr [JStr ''health'', JStr ''create_user'', JStr ''get_user'',
                           JStr ''list_users'', JStr ''audit_trail'']),
                  (''success'', JBool False)] \<rparr>, empty_db)
   \<and> lambda_handler_generated demo_world_generated no_event empty_db
     = (\<lparr> statusCode = 500,
          body = [(''error'', JStr ''Missing 'operation' in event''),
                  (''type'', JStr ''ValueError''),
                  (''success'', JBool False)] \<rparr>, empty_db)
   \<and> dispatch_generated demo_world_generated
        (no_event\<lparr> ev_operation := Some (PStr ''get_user'') \<rparr>) empty_db
     = (Inl (Exn ''ValueError'' ''Missing 'user_id' for get_user operation''), empty_db)
   \<and> lambda_handler_generated demo_world_generated
        (no_event\<lparr> ev_operation := Some (PStr ''get_user'') \<rparr>) empty_db
     = (\<lparr> statusCode = 500,
          body = [(''error'', JStr ''Missing 'user_id' for get_user operation''),
                  (''type'', JStr ''ValueError''),
                  (''success'', JBool False)] \<rparr>, empty_db)"
proof -
  let ?bad = "no_event\<lparr> ev_operation := Some (PStr ''invalid_operation'') \<rparr>"
  let ?empty = "no_event\<lparr> ev_operation := Some (PStr []) \<rparr>"
  let ?get = "no_event\<lparr> ev_operation := Some (PStr ''get_user'') \<rparr>"
  let ?down = "demo_world\<lparr> handler_fault := Some (Exn ''ClientError'' ''AccessDenied'') \<rparr>"
  have d: "dispatch ?down no_event empty_db
     = (Inl (Exn ''ClientError'' ''AccessDenied''), empty_db)"
    by (simp add: dispatch_def)
  have dg: "dispatch_generated demo_world_generated ?get empty_db
     = (Inl (Exn ''ValueError'' ''Missing 'user_id' for get_user operation''), empty_db)"
    by (simp add: dispatch_generated_def demo_world_generated_def no_event_def)
  note all = lambda_handler_error_envelopes
  note i1 = all [where w = demo_world and event = ?bad
      and operation = "PStr ''invalid_operation''" and db = empty_db,
      THEN conjunct1, rule_format]
  note i2 = all [where w = demo_world and event = ?empty and db = empty_db,
      THEN conjunct2, THEN conjunct1, rule_format]
  note i3 = all [where w = ?down and event = no_event and db = empty_db
      and err = "Exn ''ClientError'' ''AccessDenied''" and ?db1.0 = empty_db,
      THEN conjunct2, THEN conjunct2, THEN conjunct1, rule_format, OF d]
  note i4 = all [where g = demo_world_generated and event = ?bad
      and operation = "PStr ''invalid_operation''" and db = empty_db,
      THEN conjunct2, THEN conjunct2, THEN conjunct2, THEN conjunct1, rule_format]
  note i5 = all [where g = demo_world_generated and event = no_event and db = empty_db,
      THEN conjunct2, THEN conjunct2, THEN conjunct2, THEN conjunct2, THEN conjunct1,
      rule_format]
  note i6 = all [where g = demo_world_generated and event = ?get and db = empty_db
      and err = "Exn ''ValueError'' ''Missing 'user_id' for get_user operation''"
      and ?db1.0 = empty_db,
      THEN conjunct2, THEN conjunct2, THEN conjunct2, THEN conjunct2, THEN conjunct2,
      rule_format, OF dg]
  have a1: "lambda_handler demo_world ?bad empty_db
     = (\<lparr> statusCode = 500,
          body = [(''error'', JStr ''Unknown operation: invalid_operation''),
                  (''type'', JStr ''ValueError''),
                  (''success'', JBool False)] \<rparr>, empty_db)"
    using i1 by (simp add: demo_world_def no_event_def)
  have a2: "lambda_handler demo_world ?empty empty_db
     = (\<lparr> statusCode = 500,
          body = [(''error'', JStr ''Missing 'operation' in event''),
                  (''type'', JStr ''ValueError''),
                  (''success'', JBool False)] \<rparr>, empty_db)"
    using i2 by (simp add: demo_world_def no_event_def)
  have a3: "lambda_handler ?down no_event empty_db
     = (\<lparr> statusCode = 500,
          body = [(''error'', JStr ''AccessDenied''),
                  (''type'', JStr ''ClientError''),
                  (''success'', JBool False)] \<rparr>, empty_db)"
    using i3 by simp
  have a4: "lambda_handler_generated demo_world_generated ?bad empty_db
     = (\<lparr> statusCode = 400,
          body = [(''error'', JStr ''Unknown operation: invalid_operation''),
                  (''supported_operations'',
                     JArr [JStr ''health'', JStr ''create_user'', JStr ''get_user'',
                           JStr ''list_users'', JStr ''audit_trail'']),
                  (''success'', JBool False)] \<rparr>, empty_db)"
    using i4 by (simp add: demo_world_generated_def no_event_def)
  have a5: "lambda_handler_generated demo_world_generated no_event empty_db
     = (\<lparr> statusCode = 500,
          body = [(''error'', JStr ''Missing 'operation' in event''),
                  (''type'', JStr ''ValueError''),
                  (''success'', JBool False)] \<rparr>, empty_db)"
    using i5 by (simp add: demo_world_generated_def no_event_def)
  have a6: "lambda_handler_generated demo_world_generated ?get empty_db
     = (\<lparr> statusCode = 500,
          body = [(''error'', JStr ''Missing 'user_id' for get_user operation''),
                  (''type'', JStr ''ValueError''),
                  (''success'', JBool False)] \<rparr>, empty_db)"
    using i6 by simp
  show ?thesis
    apply (rule conjI, rule a1)
    apply (rule conjI, rule a2)
    apply (rule conjI, rule d)
    apply (rule conjI, rule a3)
    apply (rule conjI, rule a4)
    apply (rule conjI, rule a5)
    apply (rule conjI, rule dg)
    apply (rule a6)
    done
qed

text \<open>
  The claim as stated fails for the package's \<open>lambda_handler\<close>, the one it cites: the
  envelope for the unknown tag \<open>invalid_operation\<close> has status 500, which is no
  client-error status.
\<close>

theorem unknown_operation_is_server_error:
  "lambda_handler demo_world (no_event\<lparr> ev_operation := Some (PStr ''invalid_operation'') \<rparr>) empty_db
     = (\<lparr> statusCode = 500,
          body = [(''error'', JStr ''Unknown operation: invalid_operation''),
                  (''type'', JStr ''ValueError''),
                  (''success'', JBool False)] \<rparr>, empty_db)
   \<and> \<not> (400 \<le> statusCode (fst (lambda_handler demo_world
              (no_event\<lparr> ev_operation := Some (PStr ''invalid_operation'') \<rparr>) empty_db))
        \<and> statusCode (fst (lambda_handler demo_world
              (no_event\<lparr> ev_operation := Some (PStr ''invalid_operation'') \<rparr>) empty_db)) < 500)"
  by (simp add: lambda_handler_def dispatch_def error_envelope_def demo_world_def no_event_def)

section \<open>Properties of the read paths\<close>

lemma decrypt_event_fields_fails:
  assumes "(field_name, Some c) \<in> set cols" and "endswith field_name ''_encrypted''"
    and "snd (decrypt_field e (original_field_of field_name) (Some c)
           (Some (case map_of metadata (original_field_of field_name) of
                    None \<Rightarrow> [] | Some m \<Rightarrow> m))) = Inl err"
  shows "\<exists>err'. decrypt_event_fields e metadata cols acc = Inl err'"
  using assms(1)
proof (induction cols arbitrary: acc)
  case Nil
  then show ?case by simp
next
  case (Cons entry rest)
  obtain f v where entry: "entry = (f, v)" by (cases entry)
  show ?case
  proof (cases "entry = (field_name, Some c)")
    case True
    with assms(2,3) show ?thesis by (simp add: Let_def)
  next
    case False
    with Cons.prems have mem: "(field_name, Some c) \<in> set rest" by simp
    show ?thesis
    proof (cases v)
      case None
      with entry Cons.IH [OF mem] show ?thesis by simp
    next
      case (Some c')
      show ?thesis
      proof (cases "endswith f ''_encrypted''")
        case False
        with Some entry Cons.IH [OF mem] show ?thesis by simp
      next
        case True
        let ?o = "original_field_of f"
        let ?m = "case map_of metadata ?o of None \<Rightarrow> [] | Some m \<Rightarrow> m"
        show ?thesis
        proof (cases "snd (decrypt_field e ?o (Some c') (Some ?m))")
          case (Inl e1)
          with Some True entry show ?thesis by (simp add: Let_def)
        next
          case (Inr d)
          with Some True entry Cons.IH [OF mem, of "AList.update ?o d acc"] show ?thesis
            by (simp add: Let_def)
        qed
      qed
    qed
  qed
qed

lemma handle_get_user_operation_aborts:
  assumes "ev_user_id event = Some user_id" and "truthy user_id"
    and "retrieve_encrypted_user (main_srv w) db user_id = Inr (encrypted_data, metadata)"
    and "(field_name, Some c) \<in> set encrypted_data" and "endswith field_name ''_encrypted''"
    and "snd (decrypt_field (crypto w) (original_field_of field_name) (Some c)
           (Some (case map_of metadata (original_field_of field_name) of
                    None \<Rightarrow> [] | Some m \<Rightarrow> m))) = Inl err"
  shows "\<exists>err' db1. handle_get_user_operation w event db = (Inl err', db1)"
proof -
  from decrypt_event_fields_fails [OF assms(4-6), of "[]"]
  obtain err' where "decrypt_event_fields (crypto w) metadata encrypted_data [] = Inl err'"
    by (elim exE)
  then have "fst (decrypt_all w user_id metadata encrypted_data db []) = Inl err'"
    by (simp add: decrypt_all_result)
  then obtain db1 where "decrypt_all w user_id metadata encrypted_data db [] = (Inl err', db1)"
    by (cases "decrypt_all w user_id metadata encrypted_data db []") auto
  with assms(1-3) show ?thesis
    by (simp add: handle_get_user_operation_def Let_def)
qed

lemma render_fields_fold:
  assumes "\<forall>l \<in> snd ` set metadata_map. \<exists>i. l = PInt i"
  shows "render_fields e metadata_map cols result =
     Inr (foldl (\<lambda>acc (db_field, v).
                  AList.update (input_field_of db_field)
                    (field_or_sentinel e metadata_map db_field v) acc)
            result
            (filter (\<lambda>(db_field, v). db_field \<notin> {''id'', ''created_at'', ''updated_at''}) cols))"
proof (induction cols arbitrary: result)
  case Nil
  then show ?case by simp
next
  case (Cons entry rest)
  obtain c v where entry: "entry = (c, v)" by (cases entry)
  show ?case
  proof (cases "c \<in> {''id'', ''created_at'', ''updated_at''}")
    case True
    with entry Cons.IH show ?thesis by auto
  next
    case sys: False
    let ?f = "input_field_of c"
    show ?thesis
    proof (cases "map_of metadata_map ?f")
      case None
      then have "?f \<notin> fst ` set metadata_map"
        by (simp add: map_of_eq_None_iff)
      with None sys entry Cons.IH show ?thesis
        by (simp add: Let_def field_or_sentinel_def)
    next
      case (Some l)
      then have mem: "?f \<in> fst ` set metadata_map"
        by (metis map_of_eq_None_iff option.distinct(1))
      from Some have "l \<in> snd ` set metadata_map"
        by (metis map_of_SomeD snd_conv image_eqI)
      with assms obtain i where l: "l = PInt i" by auto
      show ?thesis
      proof (cases "v \<noteq> None \<and> i > 1")
        case False
        with Some l mem sys entry Cons.IH show ?thesis
          by (auto simp: Let_def field_or_sentinel_def)
      next
        case True
        with Some l mem sys entry Cons.IH show ?thesis
          by (cases "snd (decrypt_field_generated e ?f v (PInt i))")
             (simp_all add: Let_def field_or_sentinel_def)
      qed
    qed
  qed
qed

lemma update_entries:
  "(a, b) \<in> set (AList.update k v m) \<Longrightarrow> b = v \<or> (a, b) \<in> set m"
  by (induction m) (auto split: if_splits)

lemma build_metadata_map_levels:
  assumes "\<forall>r \<in> set rows. \<exists>i. md_pii_level r = PInt i" and "\<forall>l \<in> snd ` set m. \<exists>i. l = PInt i"
  shows "\<forall>l \<in> snd ` set (build_metadata_map rows m). \<exists>i. l = PInt i"
  using assms
proof (induction rows arbitrary: m)
  case Nil
  then show ?case by simp
next
  case (Cons row rows)
  from Cons.prems(1) obtain i0 where i0: "md_pii_level row = PInt i0" by auto
  have "\<forall>l \<in> snd ` set (AList.update (md_field_name row) (md_pii_level row) m).
      \<exists>i. l = PInt i"
  proof
    fix l assume "l \<in> snd ` set (AList.update (md_field_name row) (md_pii_level row) m)"
    then obtain a where "(a, l) \<in> set (AList.update (md_field_name row) (md_pii_level row) m)"
      by auto
    from update_entries [OF this] have "l = md_pii_level row \<or> (a, l) \<in> set m" .
    then show "\<exists>i. l = PInt i"
    proof
      assume "l = md_pii_level row"
      with i0 show ?thesis by simp
    next
      assume "(a, l) \<in> set m"
      then have "l \<in> snd ` set m" by force
      with Cons.prems(2) show ?thesis by blast
    qed
  qed
  moreover from Cons.prems(1) have "\<forall>r \<in> set rows. \<exists>i. md_pii_level r = PInt i" by simp
  ultimately show ?case using Cons.IH by simp
qed

lemma selected_columns_no_system:
  "filter (\<lambda>(db_field, v). db_field \<notin> {''id'', ''created_at'', ''updated_at''}) (selected_columns row)
     = selected_columns row"
  by (simp add: selected_columns_def filter_map comp_def)

lemma get_user_never_aborts:
  assumes "connect_fault srv = None"
    and "execute_fault srv db (SelectUser (PStr user_id)) = None"
    and "execute_fault srv db (SelectMetadata (PStr user_id)) = None"
    and "find (\<lambda>u. u_id u = user_id) (users db) = Some user_data"
    and "\<forall>r \<in> set (encryption_metadata db). \<exists>i. md_pii_level r = PInt i"
  shows "get_user e srv db user_id =
     Inr (Some (foldl (\<lambda>acc (db_field, v).
                  AList.update (input_field_of db_field)
                    (field_or_sentinel e
                       (build_metadata_map
                          (filter (\<lambda>r. md_user_id r = user_id) (encryption_metadata db)) [])
                       db_field v) acc)
            [(''user_id'', Some (u_id user_data))]
            (selected_columns user_data)))"
proof -
  let ?mm = "build_metadata_map (filter (\<lambda>r. md_user_id r = user_id) (encryption_metadata db)) []"
  have "\<forall>l \<in> snd ` set ?mm. \<exists>i. l = PInt i"
    using assms(5) by (intro build_metadata_map_levels) auto
  from render_fields_fold [OF this, of e "selected_columns user_data"
      "[(''user_id'', Some (u_id user_data))]"]
  have "render_fields e ?mm (selected_columns user_data) [(''user_id'', Some (u_id user_data))] =
     Inr (foldl (\<lambda>acc (db_field, v).
                  AList.update (input_field_of db_field) (field_or_sentinel e ?mm db_field v) acc)
            [(''user_id'', Some (u_id user_data))]
            (selected_columns user_data))"
    by (simp only: selected_columns_no_system)
  with assms(1-4) show ?thesis
    by (simp add: get_user_def get_db_connection_def Let_def)
qed

text \<open>
  C3 (as amended). In the generated handler's \<open>get_user\<close>, when the database is
  reachable, the user exists and the recorded levels are integers, the read always
  returns: its result is built column by column, each column rendered on its own
  by \<open>field_or_sentinel\<close>, so that a column whose decryption raises becomes the
  sentinel \<open>[DECRYPTION_FAILED]\<close> and every other column is returned as it would be
  without that failure. In the package's \<open>handle_get_user_operation\<close>, on the
  contrary, a column whose decryption raises ends the read: the handler re-raises, and
  no field is returned.
\<close>

theorem partial_failure_on_read:
  "(connect_fault srv = None
      \<and> execute_fault srv db (SelectUser (PStr user_id)) = None
      \<and> execute_fault srv db (SelectMetadata (PStr user_id)) = None
      \<and> find (\<lambda>u. u_id u = user_id) (users db) = Some user_data
      \<and> (\<forall>r \<in> set (encryption_metadata db). \<exists>i. md_pii_level r = PInt i)
    \<longrightarrow> get_user e srv db user_id =
          Inr (Some (foldl (\<lambda>acc (db_field, v).
                       AList.update (input_field_of db_field)
                         (field_or_sentinel e
                            (build_metadata_map
                               (filter (\<lambda>r. md_user_id r = user_id) (encryption_metadata db)) [])
                            db_field v) acc)
                 [(''user_id'', Some (u_id user_data))]
                 (selected_columns user_data))))
   \<and> (map_of metadata_map (input_field_of db_field) = Some (PInt level) \<and> 1 < level
      \<and> snd (decrypt_field_generated e (input_field_of db_field) (Some c) (PInt level)) = Inl err
    \<longrightarrow> field_or_sentinel e metadata_map db_field (Some c) = Some ''[DECRYPTION_FAILED]'')
   \<and> (ev_user_id event = Some uid \<and> truthy uid
      \<and> retrieve_encrypted_user (main_srv w) db uid = Inr (encrypted_data, metadata)
      \<and> (field_name, Some c') \<in> set encrypted_data \<and> endswith field_name ''_encrypted''
      \<and> snd (decrypt_field (crypto w) (original_field_of field_name) (Some c')
             (Some (case map_of metadata (original_field_of field_name) of
                      None \<Rightarrow> [] | Some m \<Rightarrow> m))) = Inl err'
    \<longrightarrow> (\<exists>err'' db1. handle_get_user_operation w event db = (Inl err'', db1)))"
proof (intro conjI impI)
  assume "connect_fault srv = None
      \<and> execute_fault srv db (SelectUser (PStr user_id)) = None
      \<and> execute_fault srv db (SelectMetadata (PStr user_id)) = None
      \<and> find (\<lambda>u. u_id u = user_id) (users db) = Some user_data
      \<and> (\<forall>r \<in> set (encryption_metadata db). \<exists>i. md_pii_level r = PInt i)"
  then show "get_user e srv db user_id =
          Inr (Some (foldl (\<lambda>acc (db_field, v).
                       AList.update (input_field_of db_field)
                         (field_or_sentinel e
                            (build_metadata_map
                               (filter (\<lambda>r. md_user_id r = user_id) (encryption_metadata db)) [])
                            db_field v) acc)
                 [(''user_id'', Some (u_id user_data))]
                 (selected_columns user_data)))"
    by (elim conjE) (rule get_user_never_aborts; assumption)
next
  assume "map_of metadata_map (input_field_of db_field) = Some (PInt level) \<and> 1 < level
      \<and> snd (decrypt_field_generated e (input_field_of db_field) (Some c) (PInt level)) = Inl err"
  then show "field_or_sentinel e metadata_map db_field (Some c) = Some ''[DECRYPTION_FAILED]''"
    by (simp add: field_or_sentinel_def DECRYPTION_FAILED_def)
next
  assume "ev_user_id event = Some uid \<and> truthy uid
      \<and> retrieve_encrypted_user (main_srv w) db uid = Inr (encrypted_data, metadata)
      \<and> (field_name, Some c') \<in> set encrypted_data \<and> endswith field_name ''_encrypted''
      \<and> snd (decrypt_field (crypto w) (original_field_of field_name) (Some c')
             (Some (case map_of metadata (original_field_of field_name) of
                      None \<Rightarrow> [] | Some m \<Rightarrow> m))) = Inl err'"
  then show "\<exists>err'' db1. handle_get_user_operation w event db = (Inl err'', db1)"
    by (elim conjE) (rule handle_get_user_operation_aborts; assumption)
qed

theorem partial_failure_on_read_witness:
  "get_user demo_env demo_server damaged_db ''u1'' =
     Inr (Some [(''user_id'', Some ''u1''), (''email'', Some ''a@b.com''), (''first_name'', None),
                (''last_name'', None), (''phone'', None), (''address'', Some ''1 Main St''),
                (''date_of_birth'', None), (''ip_address'', None),
                (''ssn'', Some ''[DECRYPTION_FAILED]''), (''bank_account'', None),
                (''credit_card'', None)])
   \<and> field_or_sentinel demo_env [(''ssn'', PInt 3), (''address'', PInt 2)]
       ''ssn_encrypted'' (Some ''garbage'') = Some ''[DECRYPTION_FAILED]''
   \<and> (\<exists>err db1. handle_get_user_operation demo_world
          (no_event\<lparr> ev_user_id := Some (PStr ''u1'') \<rparr>) damaged_db = (Inl err, db1))"
proof -
  let ?row = "\<lparr> u_id = ''u1'',
            u_columns = [(''email'', Some ''a@b.com''), (''ssn_encrypted'', Some ''garbage''),
                         (''address_encrypted'', Some ''K1 Main St'')] \<rparr>"
  let ?cols = "[(''email'', Some ''a@b.com''), (''first_name'', None), (''last_name'', None),
                (''phone'', None), (''address_encrypted'', Some ''K1 Main St''),
                (''dob_encrypted'', None), (''ssn_encrypted'', Some ''garbage''),
                (''bank_account_encrypted'', None), (''credit_card_encrypted'', None)]"
  let ?md = "[(''ssn'', [(''level'', PInt 3), (''app_key_version'', PInt 2),
                        (''kms_key_alias'', PStr ''alias/pii-level3'')]),
              (''address'', [(''level'', PInt 2), (''app_key_version'', PNone),
                            (''kms_key_alias'', PStr ''alias/pii-level2'')])]"
  let ?ev = "no_event\<lparr> ev_user_id := Some (PStr ''u1'') \<rparr>"
  let ?bad = "Exn ''InvalidCiphertextException'' ''bad blob''"
  have g: "get_user demo_env demo_server damaged_db ''u1'' =
     Inr (Some [(''user_id'', Some ''u1''), (''email'', Some ''a@b.com''), (''first_name'', None),
                (''last_name'', None), (''phone'', None), (''address'', Some ''1 Main St''),
                (''date_of_birth'', None), (''ip_address'', None),
                (''ssn'', Some ''[DECRYPTION_FAILED]''), (''bank_account'', None),
                (''credit_card'', None)])"
    by code_simp
  have hyp1: "connect_fault demo_server = None
      \<and> execute_fault demo_server damaged_db (SelectUser (PStr ''u1'')) = None
      \<and> execute_fault demo_server damaged_db (SelectMetadata (PStr ''u1'')) = None
      \<and> find (\<lambda>u. u_id u = ''u1'') (users damaged_db) = Some ?row
      \<and> (\<forall>r \<in> set (encryption_metadata damaged_db). \<exists>i. md_pii_level r = PInt i)"
    by (simp add: demo_server_def damaged_db_def)
  note total = partial_failure_on_read [where srv = demo_server and db = damaged_db
      and user_id = "''u1''" and user_data = ?row and e = demo_env,
      THEN conjunct1, rule_format, OF hyp1]
  have f: "input_field_of ''ssn_encrypted'' = ''ssn''"
    by code_simp
  have d: "snd (decrypt_field_generated demo_env ''ssn'' (Some ''garbage'') (PInt 3)) = Inl ?bad"
    by code_simp
  have hyp2: "map_of [(''ssn'', PInt 3), (''address'', PInt 2)] (input_field_of ''ssn_encrypted'')
        = Some (PInt 3) \<and> (1 :: int) < 3
      \<and> snd (decrypt_field_generated demo_env (input_field_of ''ssn_encrypted'') (Some ''garbage'')
           (PInt 3)) = Inl ?bad"
    unfolding f using d by simp
  note sentinel = partial_failure_on_read [where e = demo_env
      and metadata_map = "[(''ssn'', PInt 3), (''address'', PInt 2)]"
      and db_field = "''ssn_encrypted''" and level = 3 and c = "''garbage''" and err = ?bad,
      THEN conjunct2, THEN conjunct1, rule_format, OF hyp2]
  have r: "retrieve_encrypted_user demo_server damaged_db (PStr ''u1'') = Inr (?cols, ?md)"
    by code_simp
  have o: "original_field_of ''ssn_encrypted'' = ''ssn''"
    by code_simp
  have en: "endswith ''ssn_encrypted'' ''_encrypted''"
    by code_simp
  have d': "snd (decrypt_field demo_env ''ssn'' (Some ''garbage'')
      (Some [(''level'', PInt 3), (''app_key_version'', PInt 2),
             (''kms_key_alias'', PStr ''alias/pii-level3'')])) = Inl ?bad"
    by code_simp
  have hyp3: "ev_user_id ?ev = Some (PStr ''u1'') \<and> truthy (PStr ''u1'')
      \<and> retrieve_encrypted_user (main_srv demo_world) damaged_db (PStr ''u1'') = Inr (?cols, ?md)
      \<and> (''ssn_encrypted'', Some ''garbage'') \<in> set ?cols \<and> endswith ''ssn_encrypted'' ''_encrypted''
      \<and> snd (decrypt_field (crypto demo_world) (original_field_of ''ssn_encrypted'') (Some ''garbage'')
             (Some (case map_of ?md (original_field_of ''ssn_encrypted'') of
                      None \<Rightarrow> [] | Some m \<Rightarrow> m))) = Inl ?bad"
    unfolding o using r en d' by (simp add: demo_world_def no_event_def)
  note aborts = partial_failure_on_read [where event = ?ev and uid = "PStr ''u1''"
      and w = demo_world and db = damaged_db and encrypted_data = ?cols and metadata = ?md
      and field_name = "''ssn_encrypted''" and c' = "''garbage''" and err' = ?bad,
      THEN conjunct2, THEN conjunct2, rule_format, OF hyp3]
  from total g sentinel aborts show ?thesis
    by (intro conjI)
qed


text \<open>
  The claim as stated fails on the package's get path: with one damaged ciphertext
  (\<open>ssn\<close>) and one intact ciphertext (\<open>address\<close>), the whole \<open>get_user\<close> request
  is answered by the error envelope with status 500 and none of the fields.
\<close>

theorem get_user_handler_aborts_on_damaged_field:
  "fst (lambda_handler demo_world
         (no_event\<lparr> ev_operation := Some (PStr ''get_user''), ev_user_id := Some (PStr ''u1'') \<rparr>)
         damaged_db)
   = \<lparr> statusCode = 500,
       body = [(''error'', JStr ''bad blob''),
               (''type'', JStr ''InvalidCiphertextException''),
               (''success'', JBool False)] \<rparr>"
  by code_simp

end
